theory Spec2Isabelle
  imports Complex_Main
begin

section \<open>The policy network of the two-wheel balancing robot\<close>

text \<open>
  The three files under \<^verbatim>\<open>src/models\<close> each declare a class \<^verbatim>\<open>TwoWheelBotDQN\<close>: four
  constant tensors and the member functions \<^verbatim>\<open>relu\<close>, \<^verbatim>\<open>getAction\<close>, \<^verbatim>\<open>getMotorTorque\<close>
  and \<^verbatim>\<open>constrain\<close>.

  Numbers: a value of the C++ type \<^verbatim>\<open>float\<close> or \<^verbatim>\<open>double\<close> is the real number it denotes,
  and every operation of the source is the exact operation followed by the rounding of its
  result type: IEEE 754 binary32 for \<^verbatim>\<open>float\<close>, binary64 for \<^verbatim>\<open>double\<close>, to nearest with ties
  to even, with gradual underflow. A literal with the suffix \<^verbatim>\<open>f\<close> is its decimal rounded to
  binary32. Infinities and NaN are not values of the model: the statements below are about
  finite inputs, and a result of magnitude \<open>2^128\<close> or more, which binary32 turns into an
  infinity, is outside it (with the shipped tensors no value of a call exceeds 19210, see
  C9). Array indices that the loops produce are natural numbers; the action index, an
  \<^verbatim>\<open>int\<close> in the source, is an \<^typ>\<open>int\<close>.
\<close>

subsection \<open>Data\<close>

definition INPUT_SIZE :: nat where
  "INPUT_SIZE = 2"

definition HIDDEN_SIZE :: nat where
  "HIDDEN_SIZE = 64"

definition OUTPUT_SIZE :: nat where
  "OUTPUT_SIZE = 3"

text \<open>The data members of the class: the four tensors, flat arrays as in the source.\<close>

record TwoWheelBotDQN =
  weightsInputHidden :: "real list"
  biasHidden :: "real list"
  weightsHiddenOutput :: "real list"
  biasOutput :: "real list"

text \<open>
  The variables that a call of \<^verbatim>\<open>getAction\<close> works on: the object it is called on and
  the locals \<^verbatim>\<open>input\<close>, \<^verbatim>\<open>hidden\<close>, \<^verbatim>\<open>output\<close>, \<^verbatim>\<open>maxValue\<close> and \<^verbatim>\<open>bestAction\<close>.
\<close>

record frame =
  self :: TwoWheelBotDQN
  input :: "real list"
  hidden :: "real list"
  "output" :: "real list"
  maxValue :: real
  bestAction :: int

subsection \<open>Floating-point arithmetic\<close>

text \<open>
  \<open>binade x\<close> is the exponent \<open>e\<close> with \<open>2^e \<le> x < 2^(e+1)\<close> of a positive \<open>x\<close>, found by
  halving or doubling \<open>x\<close> until it lies in \<open>[1, 2)\<close>.
\<close>

function binade :: "real \<Rightarrow> int" where
  "binade x = (if x \<le> 0 then 0
     else if 2 \<le> x then binade (x / 2) + 1
     else if x < 1 then binade (x * 2) - 1
     else 0)"
  by pat_completeness auto
termination
proof (relation "measure (\<lambda>x. if 1 \<le> x then nat \<lceil>x\<rceil> else nat \<lceil>1 / x\<rceil> + 1)")
  show "wf (measure (\<lambda>x::real. if 1 \<le> x then nat \<lceil>x\<rceil> else nat \<lceil>1 / x\<rceil> + 1))"
    by simp
next
  fix x :: real
  assume "\<not> x \<le> 0" and big: "2 \<le> x"
  have "\<lceil>x / 2\<rceil> < \<lceil>x\<rceil>"
    using big by linarith
  moreover have "0 < \<lceil>x\<rceil>"
    using big by linarith
  ultimately have "nat \<lceil>x / 2\<rceil> < nat \<lceil>x\<rceil>"
    by linarith
  with big show "(x / 2, x) \<in> measure (\<lambda>x. if 1 \<le> x then nat \<lceil>x\<rceil> else nat \<lceil>1 / x\<rceil> + 1)"
    by simp
next
  fix x :: real
  assume pos: "\<not> x \<le> 0" and "\<not> 2 \<le> x" and small: "x < 1"
  show "(x * 2, x) \<in> measure (\<lambda>x. if 1 \<le> x then nat \<lceil>x\<rceil> else nat \<lceil>1 / x\<rceil> + 1)"
  proof (cases "1 \<le> x * 2")
    case True
    from small have "\<lceil>x * 2\<rceil> \<le> 2"
      by linarith
    moreover from pos small have "1 < 1 / x"
      by simp
    then have "2 \<le> \<lceil>1 / x\<rceil>"
      by linarith
    ultimately have "nat \<lceil>x * 2\<rceil> < nat \<lceil>1 / x\<rceil> + 1"
      by linarith
    with True small show ?thesis
      by simp
  next
    case False
    define y where "y = 1 / x"
    from False pos have y: "2 < y"
      by (simp add: y_def field_simps)
    have e: "1 / (x * 2) = y / 2" "1 / x = y"
      by (simp_all add: y_def)
    from y have "nat \<lceil>y / 2\<rceil> + 1 < nat \<lceil>y\<rceil> + 1"
      by linarith
    with False small show ?thesis
      by (simp add: e)
  qed
qed

declare binade.simps [simp del]

text \<open>Rounding to the nearest integer, a tie going to the even one.\<close>

definition rne :: "real \<Rightarrow> int" where
  "rne x = (let f = \<lfloor>x\<rfloor> in
     if x - of_int f < 1 / 2 then f
     else if 1 / 2 < x - of_int f then f + 1
     else if even f then f else f + 1)"

text \<open>
  Rounding to a binary format with \<open>p\<close> significant bits and least normal exponent
  \<open>emin\<close>: the spacing of the format at \<open>x\<close> is \<open>2^e\<close> with \<open>e\<close> the exponent of \<open>x\<close>, not
  below \<open>emin\<close>, less \<open>p - 1\<close>, and \<open>x\<close> goes to the nearest multiple of the spacing.
\<close>

definition round_to :: "nat \<Rightarrow> int \<Rightarrow> real \<Rightarrow> real" where
  "round_to p emin x =
     (let e = max (binade \<bar>x\<bar>) emin - (int p - 1)
      in of_int (rne (x / 2 powi e)) * 2 powi e)"

definition float32 :: "real \<Rightarrow> real" where
  "float32 = round_to 24 (- 126)"

definition float64 :: "real \<Rightarrow> real" where
  "float64 = round_to 53 (- 1022)"

text \<open>
  The operators of the source: \<^verbatim>\<open>*\<close> and \<^verbatim>\<open>+\<close> on two \<^verbatim>\<open>float\<close> operands, and \<^verbatim>\<open>/\<close> with a
  \<^verbatim>\<open>double\<close> operand, which is computed in \<^verbatim>\<open>double\<close>.
\<close>

definition fmul :: "real \<Rightarrow> real \<Rightarrow> real" where
  "fmul x y = float32 (x * y)"

definition fadd :: "real \<Rightarrow> real \<Rightarrow> real" where
  "fadd x y = float32 (x + y)"

definition ddiv :: "real \<Rightarrow> real \<Rightarrow> real" where
  "ddiv x y = float64 (x / y)"

text \<open>
  Modelled from the spec: the macro \<^verbatim>\<open>M_PI\<close> comes from \<^verbatim>\<open><math.h>\<close>, which is not part
  of the sources; the specification writes the divisor of the angle as \<open>\<pi>/3\<close>. \<^verbatim>\<open>M_PI\<close> is
  taken as \<open>\<pi>\<close> in \<^verbatim>\<open>double\<close>: the literal of the C library headers, rounded to binary64.
\<close>

definition M_PI :: real where
  "M_PI = float64 3.14159265358979323846"

subsection \<open>The member functions of the first file\<close>

text \<open>\<^verbatim>\<open>float relu(float x) { return x > 0 ? x : 0; }\<close>\<close>

definition relu :: "real \<Rightarrow> real" where
  "relu x = (if x > 0 then x else 0)"

text \<open>\<^verbatim>\<open>constrain\<close>: two early returns, then the value itself.\<close>

definition constrain :: "real \<Rightarrow> real \<Rightarrow> real \<Rightarrow> real" where
  "constrain val lo hi = (if val < lo then lo else if val > hi then hi else val)"

text \<open>
  The two assignments to \<^verbatim>\<open>input[0]\<close> and \<^verbatim>\<open>input[1]\<close>. Each quotient is a \<^verbatim>\<open>double\<close>, as is
  \<^verbatim>\<open>M_PI / 3\<close>, and is converted to \<^verbatim>\<open>float\<close> when it is passed to \<^verbatim>\<open>constrain\<close>. The
  constants \<open>3\<close>, \<open>10.0\<close>, \<open>-1.0\<close> and \<open>1.0\<close> are the same numbers in both formats.
\<close>

definition normalize :: "real \<Rightarrow> real \<Rightarrow> frame \<Rightarrow> frame" where
  "normalize angle angularVelocity s =
     (let s1 = s\<lparr>input := (input s)[0 :=
                 constrain (float32 (ddiv angle (ddiv M_PI 3))) (- 1) 1]\<rparr>
      in s1\<lparr>input := (input s1)[1 :=
                 constrain (float32 (ddiv angularVelocity 10)) (- 1) 1]\<rparr>)"

text \<open>
  The hidden layer. \<open>hidden_accum h i\<close> is the body of the inner loop,
  \<^verbatim>\<open>hidden[h] += input[i] * weightsInputHidden[i * HIDDEN_SIZE + h]\<close>: the product is rounded,
  then the sum. \<open>hidden_body h\<close> is the body of the outer loop: the bias is stored, the
  inner loop runs, \<^verbatim>\<open>relu\<close> is applied.
\<close>

definition hidden_accum :: "nat \<Rightarrow> nat \<Rightarrow> frame \<Rightarrow> frame" where
  "hidden_accum h i s =
     s\<lparr>hidden := (hidden s)[h := fadd (hidden s ! h)
          (fmul (input s ! i) (weightsInputHidden (self s) ! (i * HIDDEN_SIZE + h)))]\<rparr>"

definition hidden_body :: "nat \<Rightarrow> frame \<Rightarrow> frame" where
  "hidden_body h s =
     (let s1 = s\<lparr>hidden := (hidden s)[h := biasHidden (self s) ! h]\<rparr>;
          s2 = fold (hidden_accum h) [0..<INPUT_SIZE] s1
      in s2\<lparr>hidden := (hidden s2)[h := relu (hidden s2 ! h)]\<rparr>)"

text \<open>
  The output layer. The loop variable \<^verbatim>\<open>o\<close> of the source is written \<open>j\<close> (in HOL
  \<open>o\<close> is function composition). \<open>output_accum j h\<close> is the body of the inner loop,
  \<^verbatim>\<open>output[o] += hidden[h] * weightsHiddenOutput[h * OUTPUT_SIZE + o]\<close>; \<open>output_body j\<close> is
  the body of the outer loop, which ends with the test against the running maximum.
\<close>

definition output_accum :: "nat \<Rightarrow> nat \<Rightarrow> frame \<Rightarrow> frame" where
  "output_accum j h s =
     s\<lparr>output := (output s)[j := fadd (output s ! j)
          (fmul (hidden s ! h) (weightsHiddenOutput (self s) ! (h * OUTPUT_SIZE + j)))]\<rparr>"

definition output_body :: "nat \<Rightarrow> frame \<Rightarrow> frame" where
  "output_body j s =
     (let s1 = s\<lparr>output := (output s)[j := biasOutput (self s) ! j]\<rparr>;
          s2 = fold (output_accum j) [0..<HIDDEN_SIZE] s1
      in if output s2 ! j > maxValue s2
         then s2\<lparr>maxValue := output s2 ! j, bestAction := int j\<rparr>
         else s2)"

text \<open>
  The body of \<^verbatim>\<open>getAction\<close>, statement by statement, from the frame on entry to the frame
  at the \<^verbatim>\<open>return\<close>. The sentinel is the \<^verbatim>\<open>double\<close> literal \<^verbatim>\<open>-1e10\<close>, converted to \<^verbatim>\<open>float\<close> by
  the initialisation of \<^verbatim>\<open>maxValue\<close>.
\<close>

definition getAction_body :: "real \<Rightarrow> real \<Rightarrow> frame \<Rightarrow> frame" where
  "getAction_body angle angularVelocity s =
     (let s1 = normalize angle angularVelocity s;
          s2 = fold hidden_body [0..<HIDDEN_SIZE] s1;
          s3 = s2\<lparr>maxValue := float32 (float64 (- 10000000000)), bestAction := 0\<rparr>
      in fold output_body [0..<OUTPUT_SIZE] s3)"

text \<open>
  The frame on entry. The local arrays are declared without an initialiser, and the two
  scalars are assigned only after the hidden layer; their content on entry is taken to be
  zero here; every cell is written before it is read, and it is proved below that no
  result depends on this choice.
\<close>

definition entry :: "TwoWheelBotDQN \<Rightarrow> frame" where
  "entry P = \<lparr>self = P, input = replicate INPUT_SIZE 0, hidden = replicate HIDDEN_SIZE 0,
     output = replicate OUTPUT_SIZE 0, maxValue = 0, bestAction = 0\<rparr>"

definition getAction :: "TwoWheelBotDQN \<Rightarrow> real \<Rightarrow> real \<Rightarrow> int" where
  "getAction P angle angularVelocity = bestAction (getAction_body angle angularVelocity (entry P))"

text \<open>
  \<^verbatim>\<open>getMotorTorque\<close> reads \<^verbatim>\<open>actions[action]\<close> from a local array of three elements, whose
  entries \<open>-1.0\<close>, \<open>0.0\<close> and \<open>1.0\<close> are the same numbers in binary32. The source does not
  test the index, and neither does the definition. For an index outside 0, 1, 2 the access
  is outside the array, which C++ leaves undefined; the value of the definition there says
  nothing about the program, and every statement below about \<open>getMotorTorque\<close> is about the
  indices 0, 1 and 2.
\<close>

definition actions :: "real list" where
  "actions = [- 1, 0, 1]"

definition getMotorTorque :: "TwoWheelBotDQN \<Rightarrow> int \<Rightarrow> real" where
  "getMotorTorque P action = actions ! nat action"

subsection \<open>The member functions of the second file\<close>

text \<open>
  The same translation, made from the text of
  \<^verbatim>\<open>great_two_wheel_bot_dqn_2025-08-18T22-59-12.cpp\<close>.
\<close>

definition great_relu :: "real \<Rightarrow> real" where
  "great_relu x = (if x > 0 then x else 0)"

definition great_constrain :: "real \<Rightarrow> real \<Rightarrow> real \<Rightarrow> real" where
  "great_constrain val lo hi = (if val < lo then lo else if val > hi then hi else val)"

definition great_normalize :: "real \<Rightarrow> real \<Rightarrow> frame \<Rightarrow> frame" where
  "great_normalize angle angularVelocity s =
     (let s1 = s\<lparr>input := (input s)[0 :=
                 great_constrain (float32 (ddiv angle (ddiv M_PI 3))) (- 1) 1]\<rparr>
      in s1\<lparr>input := (input s1)[1 :=
                 great_constrain (float32 (ddiv angularVelocity 10)) (- 1) 1]\<rparr>)"

definition great_hidden_accum :: "nat \<Rightarrow> nat \<Rightarrow> frame \<Rightarrow> frame" where
  "great_hidden_accum h i s =
     s\<lparr>hidden := (hidden s)[h := fadd (hidden s ! h)
          (fmul (input s ! i) (weightsInputHidden (self s) ! (i * HIDDEN_SIZE + h)))]\<rparr>"

definition great_hidden_body :: "nat \<Rightarrow> frame \<Rightarrow> frame" where
  "great_hidden_body h s =
     (let s1 = s\<lparr>hidden := (hidden s)[h := biasHidden (self s) ! h]\<rparr>;
          s2 = fold (great_hidden_accum h) [0..<INPUT_SIZE] s1
      in s2\<lparr>hidden := (hidden s2)[h := great_relu (hidden s2 ! h)]\<rparr>)"

definition great_output_accum :: "nat \<Rightarrow> nat \<Rightarrow> frame \<Rightarrow> frame" where
  "great_output_accum j h s =
     s\<lparr>output := (output s)[j := fadd (output s ! j)
          (fmul (hidden s ! h) (weightsHiddenOutput (self s) ! (h * OUTPUT_SIZE + j)))]\<rparr>"

definition great_output_body :: "nat \<Rightarrow> frame \<Rightarrow> frame" where
  "great_output_body j s =
     (let s1 = s\<lparr>output := (output s)[j := biasOutput (self s) ! j]\<rparr>;
          s2 = fold (great_output_accum j) [0..<HIDDEN_SIZE] s1
      in if output s2 ! j > maxValue s2
         then s2\<lparr>maxValue := output s2 ! j, bestAction := int j\<rparr>
         else s2)"

definition great_getAction_body :: "real \<Rightarrow> real \<Rightarrow> frame \<Rightarrow> frame" where
  "great_getAction_body angle angularVelocity s =
     (let s1 = great_normalize angle angularVelocity s;
          s2 = fold great_hidden_body [0..<HIDDEN_SIZE] s1;
          s3 = s2\<lparr>maxValue := float32 (float64 (- 10000000000)), bestAction := 0\<rparr>
      in fold great_output_body [0..<OUTPUT_SIZE] s3)"

definition great_getAction :: "TwoWheelBotDQN \<Rightarrow> real \<Rightarrow> real \<Rightarrow> int" where
  "great_getAction P angle angularVelocity = bestAction (great_getAction_body angle angularVelocity (entry P))"

definition great_actions :: "real list" where
  "great_actions = [- 1, 0, 1]"

definition great_getMotorTorque :: "TwoWheelBotDQN \<Rightarrow> int \<Rightarrow> real" where
  "great_getMotorTorque P action = great_actions ! nat action"

subsection \<open>The member functions of the third file\<close>

text \<open>
  The same translation, made from the text of
  \<^verbatim>\<open>okayish_two_wheel_bot_dqn_2025-08-17T17-26-44.cpp\<close>.
\<close>

definition okayish_relu :: "real \<Rightarrow> real" where
  "okayish_relu x = (if x > 0 then x else 0)"

definition okayish_constrain :: "real \<Rightarrow> real \<Rightarrow> real \<Rightarrow> real" where
  "okayish_constrain val lo hi = (if val < lo then lo else if val > hi then hi else val)"

definition okayish_normalize :: "real \<Rightarrow> real \<Rightarrow> frame \<Rightarrow> frame" where
  "okayish_normalize angle angularVelocity s =
     (let s1 = s\<lparr>input := (input s)[0 :=
                 okayish_constrain (float32 (ddiv angle (ddiv M_PI 3))) (- 1) 1]\<rparr>
      in s1\<lparr>input := (input s1)[1 :=
                 okayish_constrain (float32 (ddiv angularVelocity 10)) (- 1) 1]\<rparr>)"

definition okayish_hidden_accum :: "nat \<Rightarrow> nat \<Rightarrow> frame \<Rightarrow> frame" where
  "okayish_hidden_accum h i s =
     s\<lparr>hidden := (hidden s)[h := fadd (hidden s ! h)
          (fmul (input s ! i) (weightsInputHidden (self s) ! (i * HIDDEN_SIZE + h)))]\<rparr>"

definition okayish_hidden_body :: "nat \<Rightarrow> frame \<Rightarrow> frame" where
  "okayish_hidden_body h s =
     (let s1 = s\<lparr>hidden := (hidden s)[h := biasHidden (self s) ! h]\<rparr>;
          s2 = fold (okayish_hidden_accum h) [0..<INPUT_SIZE] s1
      in s2\<lparr>hidden := (hidden s2)[h := okayish_relu (hidden s2 ! h)]\<rparr>)"

definition okayish_output_accum :: "nat \<Rightarrow> nat \<Rightarrow> frame \<Rightarrow> frame" where
  "okayish_output_accum j h s =
     s\<lparr>output := (output s)[j := fadd (output s ! j)
          (fmul (hidden s ! h) (weightsHiddenOutput (self s) ! (h * OUTPUT_SIZE + j)))]\<rparr>"

definition okayish_output_body :: "nat \<Rightarrow> frame \<Rightarrow> frame" where
  "okayish_output_body j s =
     (let s1 = s\<lparr>output := (output s)[j := biasOutput (self s) ! j]\<rparr>;
          s2 = fold (okayish_output_accum j) [0..<HIDDEN_SIZE] s1
      in if output s2 ! j > maxValue s2
         then s2\<lparr>maxValue := output s2 ! j, bestAction := int j\<rparr>
         else s2)"

definition okayish_getAction_body :: "real \<Rightarrow> real \<Rightarrow> frame \<Rightarrow> frame" where
  "okayish_getAction_body angle angularVelocity s =
     (let s1 = okayish_normalize angle angularVelocity s;
          s2 = fold okayish_hidden_body [0..<HIDDEN_SIZE] s1;
          s3 = s2\<lparr>maxValue := float32 (float64 (- 10000000000)), bestAction := 0\<rparr>
      in fold okayish_output_body [0..<OUTPUT_SIZE] s3)"

definition okayish_getAction :: "TwoWheelBotDQN \<Rightarrow> real \<Rightarrow> real \<Rightarrow> int" where
  "okayish_getAction P angle angularVelocity = bestAction (okayish_getAction_body angle angularVelocity (entry P))"

definition okayish_actions :: "real list" where
  "okayish_actions = [- 1, 0, 1]"

definition okayish_getMotorTorque :: "TwoWheelBotDQN \<Rightarrow> int \<Rightarrow> real" where
  "okayish_getMotorTorque P action = okayish_actions ! nat action"

subsection \<open>The shipped parameter sets\<close>

text \<open>
  The four arrays of each file, in the order of the source text; each literal is rounded
  to binary32.
\<close>

definition good_bot :: TwoWheelBotDQN where
  "good_bot = \<lparr>
    weightsInputHidden = map float32 [
        6.295638, -1.850533, -3.660843, 0.602734, -6.841746, -2.096013, -2.126892, 7.628844,
        -1.742573, 9.687100, 4.709247, -2.089385, -2.576713, 9.120074, 0.502768, -1.870195,
        -2.594027, 7.311043, -4.326180, -3.920493, 9.728833, -2.216990, 5.342290, 8.861135,
        -6.688597, 4.232511, 9.996012, 4.026363, 8.000815, -5.578982, 4.699579, 2.422302,
        -1.920287, -3.820326, -3.596382, 5.016973, 4.649177, 8.202576, -6.308837, 4.131910,
        9.413630, -2.304744, 8.491673, 9.952552, -2.091427, 2.351893, 0.629483, -9.662912,
        -7.130031, -4.491361, -8.846105, 9.965243, -7.087262, -2.284093, -6.909976, 0.935843,
        -9.990727, 9.979317, 7.905297, 4.997625, 9.103757, 7.880756, 5.246580, 9.993675,
        6.975945, 6.465416, -5.528822, -1.290155, 7.186906, 6.890776, 7.693265, 9.329733,
        6.429513, 9.168078, 7.105161, 7.607069, 3.538911, 8.852961, 2.878730, 7.340614,
        7.452807, 4.370234, -5.238105, -5.412622, 2.631392, 6.004950, 7.786075, 3.688759,
        -9.904918, 7.136580, 6.699219, 7.037698, 6.476280, -0.143927, 6.828653, 9.500813,
        7.363741, 9.450343, -5.505105, 6.986243, 6.728014, 8.457144, -3.787674, 8.261312,
        9.560166, 7.475851, 3.418196, 1.169422, 6.794282, 0.080153, -8.089054, -9.846926,
        3.053711, 4.115725, 6.924769, 9.964819, -3.540367, 7.449141, -9.998987, 6.612534,
        -9.732748, 9.999708, 8.764077, 7.846357, 9.999992, -2.676654, 7.982852, 9.998997],
    biasHidden = map float32 [
        0.080536, -0.929635, -6.501798, -0.179922, 9.275137, -1.476170, -1.153123, -0.058938,
        -0.993763, -0.032095, -0.030411, -1.143823, -1.419015, 9.995647, -1.007954, -1.195314,
        -0.748420, 9.999460, -7.017145, -6.701336, -0.240355, -0.911372, 0.059972, 9.997789,
        -0.547384, 0.449758, 9.307693, -0.018306, 4.539246, -5.653224, -0.088031, 1.631950,
        -1.184551, 3.198842, -6.424275, 0.109031, -0.086791, 0.137293, 2.834974, -1.177511,
        -0.067350, -0.947959, -1.161099, 9.805529, -0.871277, 3.015492, -2.235251, -0.588661,
        0.022934, 3.431534, 4.629768, -0.208353, 0.060355, -0.951354, -0.280214, -3.236523,
        -0.096716, 9.865481, 6.809405, 3.647973, 5.385517, 1.412368, -0.039483, 9.995531],
    weightsHiddenOutput = map float32 [
        -9.759555, -9.704429, -3.454707, -5.564745, -3.108928, -2.520485, 1.461152, -9.709034,
        -5.648414, -2.212940, -0.139113, 5.160562, 0.431317, -1.438130, 0.400379, -6.373718,
        -1.190379, 0.254943, -7.306643, -1.843698, -1.973046, -6.472114, -9.947268, -2.031401,
        -5.127713, -4.352422, -3.465006, -5.539598, -1.447761, 8.454305, -9.712676, -9.834433,
        -7.446741, -8.441308, -1.715975, -2.384837, 0.655623, 1.198598, 1.451485, -0.651078,
        -6.365025, 2.984835, -0.620551, -3.977003, -6.567152, -8.432240, -2.002603, -1.969182,
        -6.569915, -2.962635, -1.466082, 0.597767, 1.695903, 0.414740, 1.141466, -10.000000,
        -5.519770, 1.364865, -10.000000, -5.648401, 4.466168, 4.912095, -9.997786, -4.884659,
        -3.638630, 2.212678, -8.079793, -9.547993, -3.167751, -0.408713, 6.187855, 1.462381,
        -9.787572, -4.645315, -10.000000, -9.581159, -9.621643, -8.123490, 0.019523, 0.537000,
        -1.720936, -9.698351, -9.877735, -8.298148, 6.285109, 9.436760, 9.999233, 5.953860,
        9.845404, -2.366477, -7.273551, -9.900617, -7.681024, 9.999985, -9.046762, -0.800157,
        -6.896054, -2.194559, -3.068935, 9.999969, -6.593205, -0.998238, 1.531406, -7.872448,
        -5.429743, -8.578238, -9.719885, -5.070611, -6.413540, -9.900917, -7.672114, 3.818908,
        1.020840, 7.636564, 0.074648, 1.333026, 2.131731, -6.511018, -8.141835, -2.197324,
        -7.497734, -8.794179, -1.682740, -8.339524, -2.055104, -1.593541, 7.187456, 7.874950,
        5.511042, 0.151787, 3.062952, -0.624655, -5.830593, -2.893039, -2.016152, -0.022415,
        -3.163301, 3.536042, -3.898687, 5.829141, -4.216600, -9.235849, -9.890819, -10.000000,
        -3.540342, -7.601387, -7.294088, 3.328122, 0.521785, 0.788391, 2.388827, -1.355578,
        9.333737, 1.931855, -4.671470, -7.351176, -9.182127, -7.005639, -6.903049, -8.422039,
        -2.288596, -1.656692, -9.779089, 3.331609, -10.000000, -1.587553, -3.719940, -4.566545,
        9.999997, -2.246124, -5.716110, -1.102775, 1.669343, -0.782916, -0.757946, 2.341926,
        0.133086, 0.440944, 0.584484, -1.092948, 0.561345, 0.625357, -1.059536, 8.594075,
        5.169158, -7.616521, -1.505104, 2.752802, -1.613890, -0.437487, 1.791742, -1.057920],
    biasOutput = map float32 [
        9.999990, 9.864182, 8.508238]\<rparr>"

definition great_bot :: TwoWheelBotDQN where
  "great_bot = \<lparr>
    weightsInputHidden = map float32 [
        1.562055, 0.514468, -0.473006, 2.808634, 4.760920, 2.532120, 1.124356, 1.504863,
        1.805886, 1.634778, -2.062981, 1.178754, 0.428206, -0.563004, 1.535193, -1.068067,
        -1.057839, -0.729536, 1.484605, -0.998221, 2.255957, 1.229661, 1.556052, 2.357310,
        0.239409, 2.696138, -1.084991, -1.703210, 1.799259, -1.283825, 3.650103, 2.727259,
        2.212618, 2.015595, 1.633075, 0.605992, -0.630083, 2.147849, -1.120478, 2.848284,
        -0.577283, 1.611074, -0.200125, 1.668548, -0.541821, -0.594331, -0.427008, 3.236287,
        2.886371, -0.133864, -2.303359, -0.130546, 0.802876, 0.809989, 1.634268, -1.151100,
        -0.602146, 1.177242, -0.145163, 1.298190, -0.172146, 1.874677, 1.142781, 0.645349,
        0.140528, -1.276738, -1.181672, 2.752764, 1.922178, 1.899242, -0.168059, 0.240058,
        -0.677331, 1.194658, 2.632901, 0.135653, 0.819208, 2.169080, -1.624542, 1.515473,
        -1.046074, -0.044351, -1.354770, 1.402764, 0.607658, 0.252495, 2.683328, 3.269516,
        -3.574276, 1.946949, -0.887349, 1.200368, 0.064354, 2.477621, 0.825214, 2.146510,
        3.446882, 0.808979, -1.282878, 1.172869, -0.586936, 1.235414, 2.051383, 3.609596,
        1.502400, 2.384709, -1.698860, 0.438668, 1.100604, 1.389171, -0.451361, -0.713746,
        2.529861, 0.325006, -0.155409, -0.121435, -1.491407, 2.179578, -3.194122, -1.796545,
        -0.405066, 0.810857, 1.003453, 1.030951, -1.696151, 2.399278, 1.698151, 0.668891],
    biasHidden = map float32 [
        3.335025, -0.430289, -0.829481, 0.479285, 0.064816, 2.977705, 1.537046, 4.088611,
        4.164180, 1.869742, 4.015369, 2.218691, 2.194860, 2.188948, 4.111330, 0.321192,
        -0.807275, 3.492487, 5.536273, 4.350257, 2.567554, 4.641420, -0.505011, -0.237479,
        -0.644005, -0.473401, 1.673581, 3.670061, 3.787272, 3.417239, -0.002360, 3.081504,
        0.006566, 2.441579, 1.465405, 3.236509, -0.915540, 3.159756, 1.606339, 0.389322,
        4.343277, 3.001121, 0.033443, -0.334158, 1.705243, -0.654399, -0.682102, 3.266447,
        -0.136549, 2.909122, 0.008018, 3.442800, 0.268609, -1.493734, 0.707482, -0.212758,
        -0.830591, -1.481474, 1.046644, -1.493130, 3.650714, 3.451095, 1.528494, 3.035869],
    weightsHiddenOutput = map float32 [
        0.465633, 1.496157, 1.884236, 0.811821, -0.174297, 0.373779, 1.205584, -0.845979,
        0.903113, -0.759903, -1.936574, -0.622517, -1.886793, -1.696501, -1.095496, 0.289177,
        0.704771, 0.102861, 0.747737, 0.064139, 0.467976, -0.134089, 0.351984, 1.813471,
        1.214756, 0.826649, 1.598918, 0.465928, 0.360751, 0.320001, 1.831483, 0.201918,
        1.510664, 0.032636, 1.774777, -0.323431, 0.552404, 1.960562, 0.599258, 0.194048,
        1.617670, 0.401782, 1.508444, 0.406192, 1.549503, 0.600662, 4.383265, 0.304499,
        0.113412, -0.845975, -1.044519, 0.873461, 0.786546, 2.071872, 3.021733, 0.388386,
        0.741189, 1.777898, 0.194675, 1.673239, 0.459059, 0.441026, -0.022435, 1.213874,
        4.930711, -1.773572, -0.500528, -1.981457, -0.266859, -0.363574, -2.895611, -0.824536,
        0.038620, -1.091421, -0.272516, -0.429502, -1.647473, -0.646360, 1.774762, 2.444822,
        1.759911, 1.570304, -0.119839, 1.728926, 1.200217, 0.331585, 1.062623, 1.011681,
        -0.404660, 0.981923, -1.113478, -1.766857, -1.091031, 0.435578, 0.876305, 0.034029,
        -0.968539, -1.134618, -0.740847, 0.501672, 0.158326, 0.397873, -0.093179, 0.574975,
        1.285098, 0.371434, 0.393031, 1.448127, 1.017989, -0.973421, 1.042020, 0.613371,
        0.239669, 0.415911, 0.463373, 0.257178, 0.960232, -1.034883, -1.863229, -0.870047,
        1.285384, 0.346159, 1.616449, 0.316559, -0.157922, -0.011393, -0.260219, -0.353031,
        -1.292353, -0.122499, -1.896060, -0.447871, 0.605159, -0.138838, 1.106491, 0.894468,
        -0.758770, 0.349735, 0.672770, -0.506824, 0.083725, 0.251856, 1.499237, 1.179429,
        -0.816366, -1.872082, -0.942827, 0.719754, 1.530704, 1.105589, -0.953745, -0.607486,
        -1.675260, -0.453360, 1.676731, -0.108341, 0.332944, -0.559575, 0.570322, 0.001389,
        -0.556805, 0.039936, 1.067614, 0.327634, 0.880732, -0.078886, -0.692667, -1.079174,
        1.187045, -1.229772, 0.969661, 0.181852, -0.418336, 0.092987, 0.240172, 3.889463,
        0.362683, -0.327369, -1.417740, 0.061413, 1.209702, 1.151713, 1.747081, 0.353684,
        -0.011685, -0.099002, 0.096467, 1.298059, 0.427827, 0.884686, 0.919311, 1.119833],
    biasOutput = map float32 [
        0.608543, 4.684580, 0.430603]\<rparr>"

definition okayish_bot :: TwoWheelBotDQN where
  "okayish_bot = \<lparr>
    weightsInputHidden = map float32 [
        7.023232, -1.946496, -3.660843, 0.602734, -5.156502, -2.125623, -2.262152, 3.537727,
        -1.847513, 5.594237, 5.157835, -2.229493, -2.576713, -4.074543, 3.075437, 1.582539,
        -2.657667, 6.860506, -4.326180, -3.920493, 1.961780, -2.236488, 8.866314, 8.776635,
        -6.881963, 7.039897, 6.978577, 3.682001, 8.947897, -5.578982, 5.578310, -0.396936,
        1.448075, 2.259323, -3.596382, 5.706481, 3.215534, 9.003716, 2.990098, 5.682712,
        5.422194, -2.412235, 8.792321, 4.318284, -2.177967, 8.304332, 0.656789, -5.843938,
        -6.586642, -4.976937, 9.008966, 5.064896, 1.330268, -2.393737, -3.755072, 5.433015,
        -7.779222, 5.952105, 6.251626, 8.590270, 1.916585, 3.361299, 4.988776, 8.524696,
        7.040170, 6.249614, -5.528822, -1.290155, -2.341282, 6.861738, 7.467060, 9.133445,
        6.195847, -0.543552, 1.495834, 7.389530, 3.538911, -2.879457, 5.602779, 9.999001,
        7.287007, 7.165514, -5.238105, -5.412622, 6.280796, 5.985641, 9.998694, 6.671149,
        -9.272775, 9.999001, 6.411644, 9.999001, 2.362712, -0.143927, 9.987533, -1.337093,
        9.999001, -3.802574, -5.505105, 5.309973, 9.999001, 1.243797, 0.625026, 9.999001,
        5.444474, 7.289879, 6.816528, 4.470291, 6.592383, 0.702628, -7.943575, -8.206820,
        -9.986835, -3.605889, 0.986598, 9.999001, -6.502712, 7.262049, -9.582799, 9.456708,
        -8.293652, 6.828340, 6.330016, 5.177098, 4.480667, 6.679293, 6.803697, 5.973219],
    biasHidden = map float32 [
        -4.608638, -1.025601, -6.501798, -0.179922, 9.999697, -1.505780, -1.288382, -0.063906,
        -1.098465, -5.406548, -5.626944, -1.283827, -1.419015, 7.609716, -0.019569, -0.267095,
        -0.812000, 8.893893, -7.017145, -6.701336, -0.298858, -0.930873, -0.756151, 9.998854,
        -0.740462, -0.782925, 9.059819, -0.454074, -2.636194, -5.653224, 0.432449, -0.904040,
        -0.257348, -0.390401, -6.424275, -5.094511, -0.413040, -2.548503, 9.998443, -0.652023,
        -6.177557, -1.055423, -1.111208, 7.945953, -0.957842, 9.960999, -2.262724, -0.004519,
        -0.576031, 9.999621, -2.522706, -0.591737, -0.043445, -1.060988, -0.601453, -0.395452,
        0.041157, 9.997232, 8.007367, 8.574869, 8.618369, -0.475475, -3.885806, 9.999194],
    weightsHiddenOutput = map float32 [
        -5.587954, -1.338409, 7.894243, -4.962707, -3.182529, -2.710292, 1.461152, -9.709034,
        -5.648414, -2.212940, -0.139113, 5.160562, -0.084272, 0.671394, 2.650271, -6.373718,
        -1.190761, 0.246599, -6.727904, -1.919167, -2.161101, -9.998485, -9.104272, -6.751316,
        -4.544266, -4.427130, -3.654868, -2.031543, -2.058283, 9.277313, -4.725622, -2.927679,
        2.245592, -7.851984, -1.791459, -2.572003, 0.655623, 1.198598, 1.451485, 1.544230,
        -1.286419, 0.873134, -4.064549, -5.273642, -7.706302, -9.997818, -3.833695, -5.459013,
        -5.847614, -3.030030, -1.662569, 1.970976, 0.252092, -0.554032, 1.141466, -10.000000,
        -5.519770, 1.364865, -10.000000, -5.648401, 1.014188, 0.426735, -8.632522, -4.884659,
        -3.638630, 2.209774, -9.998488, -9.236064, -0.818472, 0.186232, 6.200472, 1.062291,
        -9.567947, -7.802730, -9.969671, -9.998501, -8.178892, -2.274161, 1.750523, 0.317791,
        -0.568474, -9.998501, -9.998934, -8.020748, 9.990403, 7.111800, 5.202513, 5.953860,
        9.845404, -2.366477, -5.184835, -5.301702, 9.998660, 9.742731, -2.212579, 9.827650,
        -9.712143, -4.027054, -6.541830, 7.397160, 8.965155, 9.583761, 1.531406, -7.872448,
        -5.429743, -7.620375, -6.061645, 1.329547, -9.998339, -9.999308, -8.597130, 9.978527,
        7.311152, 6.552685, -3.781931, 0.233861, 1.429024, -7.103989, -9.731123, -2.981201,
        -6.539904, -0.878213, 7.422890, -7.699227, -2.127329, -1.782914, 8.523526, 7.226751,
        -5.621420, 2.145602, 0.017955, -0.266393, -5.200203, -2.964766, -2.204410, 0.989793,
        -1.440522, 3.423784, -3.725695, 5.854098, -4.168884, -5.795030, -7.439397, -5.605638,
        9.576832, -2.339823, -5.102937, -0.833721, 1.272744, 2.634202, 9.973733, 8.245879,
        5.849717, -5.402317, -6.336952, -4.632036, -7.499793, -7.818459, -8.956123, -7.782010,
        -2.361067, -1.846055, -9.937052, 4.737638, -8.084605, -3.914376, -5.222555, -6.069197,
        9.083991, 9.500952, 9.353291, 1.528680, 1.264627, -1.153892, 1.587600, 0.252650,
        -0.293399, 0.698731, -1.105670, 0.858467, 2.815850, -0.328581, -0.599793, 7.979664,
        2.225731, -10.000000, -0.752829, 0.822771, -6.823290, 0.721177, 2.456748, -0.943365],
    biasOutput = map float32 [
        9.509856, 9.999767, 9.999404]\<rparr>"

definition shipped :: "TwoWheelBotDQN \<Rightarrow> bool" where
  "shipped P \<longleftrightarrow> P = good_bot \<or> P = great_bot \<or> P = okayish_bot"

text \<open>
  A synthetic parameter set for the tie-break test of the specification: every weight and
  every hidden bias is zero, and the output biases are equal at the indices 0 and 2.
\<close>

definition tie_bot :: TwoWheelBotDQN where
  "tie_bot = \<lparr>weightsInputHidden = replicate (INPUT_SIZE * HIDDEN_SIZE) 0,
     biasHidden = replicate HIDDEN_SIZE 0,
     weightsHiddenOutput = replicate (HIDDEN_SIZE * OUTPUT_SIZE) 0,
     biasOutput = [5, 1, 5]\<rparr>"

subsection \<open>The specification's reading of the forward pass\<close>

text \<open>
  The definitions of this subsection follow the words of the specification, not the
  source: the two weight arrays as matrices, row-major; the saturating clamp; a hidden unit
  as \<open>max(0, bias + input[0] * W_ih[0][h] + input[1] * W_ih[1][h])\<close>, summed in this order;
  an output as the bias plus the products \<open>h[k] * W_ho[k][o]\<close>, added one after the other in
  the order of \<open>k\<close>. The sums and products are those of \<^verbatim>\<open>float\<close>. The theorems below compare
  them with what the loops of the source leave in the arrays.
\<close>

definition W_ih :: "TwoWheelBotDQN \<Rightarrow> nat \<Rightarrow> nat \<Rightarrow> real" where
  "W_ih P i h = weightsInputHidden P ! (i * HIDDEN_SIZE + h)"

definition W_ho :: "TwoWheelBotDQN \<Rightarrow> nat \<Rightarrow> nat \<Rightarrow> real" where
  "W_ho P k j = weightsHiddenOutput P ! (k * OUTPUT_SIZE + j)"

definition clamp :: "real \<Rightarrow> real \<Rightarrow> real \<Rightarrow> real" where
  "clamp x lo hi = max lo (min hi x)"

definition normalized :: "real \<Rightarrow> real \<Rightarrow> real list" where
  "normalized angle angularVelocity =
     [clamp (float32 (ddiv angle (ddiv M_PI 3))) (- 1) 1,
      clamp (float32 (ddiv angularVelocity 10)) (- 1) 1]"

definition hidden_value :: "TwoWheelBotDQN \<Rightarrow> real list \<Rightarrow> nat \<Rightarrow> real" where
  "hidden_value P x h =
     max 0 (fadd (fadd (biasHidden P ! h) (fmul (x ! 0) (W_ih P 0 h))) (fmul (x ! 1) (W_ih P 1 h)))"

definition output_value :: "TwoWheelBotDQN \<Rightarrow> real list \<Rightarrow> nat \<Rightarrow> real" where
  "output_value P hs j =
     foldl (\<lambda>acc k. fadd acc (fmul (hs ! k) (W_ho P k j))) (biasOutput P ! j) [0..<HIDDEN_SIZE]"

definition hidden_values :: "TwoWheelBotDQN \<Rightarrow> real \<Rightarrow> real \<Rightarrow> real list" where
  "hidden_values P a v = map (hidden_value P (normalized a v)) [0..<HIDDEN_SIZE]"

definition score :: "TwoWheelBotDQN \<Rightarrow> real \<Rightarrow> real \<Rightarrow> nat \<Rightarrow> real" where
  "score P a v = output_value P (hidden_values P a v)"

text \<open>
  The selection, as a function of the scores alone: the pair of running maximum and best
  index after one more score has been looked at, and the initial value of the maximum.
\<close>

definition sentinel :: real where
  "sentinel = - 10000000000"

definition track :: "(nat \<Rightarrow> real) \<Rightarrow> nat \<Rightarrow> real \<times> int \<Rightarrow> real \<times> int" where
  "track f j mb = (if f j > fst mb then (f j, int j) else mb)"

text \<open>
  \<open>first_maximum xs r\<close>: \<open>r\<close> is an index of \<open>xs\<close>, no element of \<open>xs\<close> is greater than the
  one at \<open>r\<close>, and every element before \<open>r\<close> is strictly smaller.
\<close>

definition first_maximum :: "real list \<Rightarrow> int \<Rightarrow> bool" where
  "first_maximum xs r \<longleftrightarrow>
     0 \<le> r \<and> nat r < length xs \<and> (\<forall>j<length xs. xs ! j \<le> xs ! nat r)
     \<and> (\<forall>j<nat r. xs ! j < xs ! nat r)"

text \<open>A frame whose three arrays have the sizes the source declares them with.\<close>

definition well_sized :: "frame \<Rightarrow> bool" where
  "well_sized s \<longleftrightarrow> length (input s) = INPUT_SIZE \<and> length (hidden s) = HIDDEN_SIZE
     \<and> length (output s) = OUTPUT_SIZE"

text \<open>Tensors of the declared sizes whose entries all have magnitude at most 10.\<close>

definition all_within :: "real \<Rightarrow> real list \<Rightarrow> bool" where
  "all_within c xs = list_all (\<lambda>x. \<bar>x\<bar> \<le> c) xs"

definition params_within :: "TwoWheelBotDQN \<Rightarrow> bool" where
  "params_within P \<longleftrightarrow>
     length (weightsInputHidden P) = INPUT_SIZE * HIDDEN_SIZE \<and> all_within 10 (weightsInputHidden P) \<and>
     length (biasHidden P) = HIDDEN_SIZE \<and> all_within 10 (biasHidden P) \<and>
     length (weightsHiddenOutput P) = HIDDEN_SIZE * OUTPUT_SIZE \<and> all_within 10 (weightsHiddenOutput P) \<and>
     length (biasOutput P) = OUTPUT_SIZE \<and> all_within 10 (biasOutput P)"

section \<open>Properties\<close>

subsection \<open>Rounding\<close>

lemma binade_bounds:
  "0 < x \<Longrightarrow> 2 powi binade x \<le> x \<and> x < 2 powi (binade x + 1)"
proof (induction x rule: binade.induct)
  case (1 x)
  have step: "(2::real) powi (k + 1) = 2 * 2 powi k" for k :: int
    by (simp add: power_int_add)
  show ?case
  proof (cases "2 \<le> x")
    case True
    with "1.prems" have b: "binade x = binade (x / 2) + 1"
      by (subst binade.simps) simp
    from "1.IH"(1) "1.prems" True
    have "2 powi binade (x / 2) \<le> x / 2 \<and> x / 2 < 2 powi (binade (x / 2) + 1)"
      by simp
    then show ?thesis
      unfolding b step by linarith
  next
    case False
    show ?thesis
    proof (cases "x < 1")
      case True
      with "1.prems" False have b: "binade x = binade (x * 2) - 1"
        by (subst binade.simps) simp
      from "1.IH"(2) "1.prems" False True
      have "2 powi binade (x * 2) \<le> x * 2 \<and> x * 2 < 2 powi (binade (x * 2) + 1)"
        by simp
      moreover have "(2::real) powi binade (x * 2) = 2 * 2 powi (binade (x * 2) - 1)"
        using step [of "binade (x * 2) - 1"] by simp
      ultimately show ?thesis
        unfolding b step by simp
    next
      case small: False
      with "1.prems" False have "binade x = 0"
        by (subst binade.simps) simp
      with False small show ?thesis
        by simp
    qed
  qed
qed

lemma pow2_less_imp: "(2::real) powi m < 2 powi n \<Longrightarrow> m < n"
proof (rule ccontr)
  assume less: "(2::real) powi m < 2 powi n" and "\<not> m < n"
  then have "n \<le> m" by simp
  then have "(2::real) powi n \<le> 2 powi m" by (rule power_int_increasing) simp
  with less show False by simp
qed

lemma rne_of_int: "rne (of_int k) = k"
  by (simp add: rne_def)

lemma rne_range: "\<lfloor>x\<rfloor> \<le> rne x \<and> rne x \<le> \<lfloor>x\<rfloor> + 1"
  by (simp add: rne_def Let_def)

lemma rne_mono: "x \<le> y \<Longrightarrow> rne x \<le> rne y"
proof -
  assume le: "x \<le> y"
  then have "\<lfloor>x\<rfloor> \<le> \<lfloor>y\<rfloor>" by (rule floor_mono)
  then consider "\<lfloor>x\<rfloor> = \<lfloor>y\<rfloor>" | "\<lfloor>x\<rfloor> + 1 \<le> \<lfloor>y\<rfloor>" by linarith
  then show ?thesis
  proof cases
    case 1
    with le show ?thesis by (auto simp: rne_def Let_def)
  next
    case 2
    with rne_range [of x] rne_range [of y] show ?thesis by linarith
  qed
qed

lemma round_to_multiple:
  assumes e: "max (binade \<bar>x\<bar>) emin - (int p - 1) \<le> k"
  shows "x \<le> of_int m * 2 powi k \<Longrightarrow> round_to p emin x \<le> of_int m * 2 powi k"
    and "of_int m * 2 powi k \<le> x \<Longrightarrow> of_int m * 2 powi k \<le> round_to p emin x"
proof -
  define e where "e = max (binade \<bar>x\<bar>) emin - (int p - 1)"
  define u :: real where "u = 2 powi e"
  have u: "0 < u" by (simp add: u_def)
  from assms have ek: "0 \<le> k - e" by (simp add: e_def)
  have "(2::real) powi k = 2 powi (k - e) * 2 powi e"
    by (simp flip: power_int_add)
  also have "(2::real) powi (k - e) = of_int (2 ^ nat (k - e))"
    using ek by (simp add: power_int_nonneg_exp)
  finally have mk: "of_int m * 2 powi k = of_int (m * 2 ^ nat (k - e)) * u"
    by (simp add: u_def)
  have r: "round_to p emin x = of_int (rne (x / u)) * u"
    by (simp add: round_to_def e_def u_def Let_def)
  {
    assume "x \<le> of_int m * 2 powi k"
    with u have "x / u \<le> of_int (m * 2 ^ nat (k - e))"
      unfolding mk by (simp add: pos_divide_le_eq)
    from rne_mono [OF this] have "rne (x / u) \<le> m * 2 ^ nat (k - e)"
      by (simp only: rne_of_int)
    then have "(of_int (rne (x / u)) :: real) \<le> of_int (m * 2 ^ nat (k - e))"
      by (simp only: of_int_le_iff)
    with u show "round_to p emin x \<le> of_int m * 2 powi k"
      unfolding mk r by (simp only: mult_le_cancel_right_pos)
  }
  {
    assume "of_int m * 2 powi k \<le> x"
    with u have "of_int (m * 2 ^ nat (k - e)) \<le> x / u"
      unfolding mk by (simp add: pos_le_divide_eq)
    from rne_mono [OF this] have "m * 2 ^ nat (k - e) \<le> rne (x / u)"
      by (simp only: rne_of_int)
    then have "(of_int (m * 2 ^ nat (k - e)) :: real) \<le> of_int (rne (x / u))"
      by (simp only: of_int_le_iff)
    with u show "of_int m * 2 powi k \<le> round_to p emin x"
      unfolding mk r by (simp only: mult_le_cancel_right_pos)
  }
qed

lemma binade_nonneg: "1 \<le> x \<Longrightarrow> 0 \<le> binade x"
proof -
  assume x: "1 \<le> x"
  then have "x < 2 powi (binade x + 1)"
    using binade_bounds [of x] by simp
  with x have "(2::real) powi 0 < 2 powi (binade x + 1)"
    by simp
  then have "0 < binade x + 1"
    by (rule pow2_less_imp)
  then show ?thesis by simp
qed

lemma round_to_ge_one:
  assumes "1 \<le> x" and "emin \<le> 0" and "0 < p"
  shows "1 \<le> round_to p emin x"
proof -
  from assms(1) have b: "0 \<le> binade x" by (rule binade_nonneg)
  from assms(1) have abs: "\<bar>x\<bar> = x" by simp
  from b assms have e: "max (binade \<bar>x\<bar>) emin - (int p - 1) \<le> binade x"
    by (simp add: abs)
  from assms(1) have "of_int 1 * 2 powi binade x \<le> x"
    using binade_bounds [of x] by simp
  from round_to_multiple(2) [OF e this] have "2 powi binade x \<le> round_to p emin x"
    by simp
  moreover from b have "(1::real) \<le> 2 powi binade x"
    by simp
  ultimately show ?thesis by linarith
qed

lemma round_to_le_minus_one:
  assumes "x \<le> - 1" and "emin \<le> 0" and "0 < p"
  shows "round_to p emin x \<le> - 1"
proof -
  from assms(1) have abs: "\<bar>x\<bar> = - x" and one: "1 \<le> - x" by simp_all
  from one have b: "0 \<le> binade (- x)" by (rule binade_nonneg)
  from b assms have e: "max (binade \<bar>x\<bar>) emin - (int p - 1) \<le> binade (- x)"
    by (simp add: abs)
  from one have "x \<le> of_int (- 1) * 2 powi binade (- x)"
    using binade_bounds [of "- x"] by simp
  from round_to_multiple(1) [OF e this] have "round_to p emin x \<le> - (2 powi binade (- x))"
    by simp
  moreover from b have "(1::real) \<le> 2 powi binade (- x)"
    by simp
  ultimately show ?thesis by linarith
qed

lemma round_to_abs_le:
  assumes x: "\<bar>x\<bar> \<le> of_int n" and n: "n < 2 ^ p" and p: "0 < p" and emin: "emin \<le> int p - 1"
  shows "\<bar>round_to p emin x\<bar> \<le> of_int n"
proof -
  have e: "max (binade \<bar>x\<bar>) emin - (int p - 1) \<le> 0"
  proof (cases "x = 0")
    case True
    with p emin show ?thesis by (simp add: binade.simps)
  next
    case False
    then have "2 powi binade \<bar>x\<bar> \<le> \<bar>x\<bar>"
      using binade_bounds [of "\<bar>x\<bar>"] by simp
    also note x
    also from n have "(of_int n :: real) < of_int (2 ^ p)"
      by (simp only: of_int_less_iff)
    finally have "(2::real) powi binade \<bar>x\<bar> < 2 powi int p"
      by simp
    then have "binade \<bar>x\<bar> < int p"
      by (rule pow2_less_imp)
    with emin show ?thesis by simp
  qed
  from x have "x \<le> of_int n * 2 powi 0" "of_int (- n) * 2 powi 0 \<le> x"
    by simp_all
  from round_to_multiple(1) [OF e this(1)] round_to_multiple(2) [OF e this(2)]
  show ?thesis by simp
qed

lemma float32_abs_le: "\<bar>x\<bar> \<le> of_int n \<Longrightarrow> n < 16777216 \<Longrightarrow> \<bar>float32 x\<bar> \<le> of_int n"
  unfolding float32_def by (rule round_to_abs_le) simp_all

lemma float64_abs_le:
  "\<bar>x\<bar> \<le> of_int n \<Longrightarrow> n < 9007199254740992 \<Longrightarrow> \<bar>float64 x\<bar> \<le> of_int n"
  unfolding float64_def by (rule round_to_abs_le) simp_all

lemma float32_ge_one: "1 \<le> x \<Longrightarrow> 1 \<le> float32 x"
  unfolding float32_def by (rule round_to_ge_one) simp_all

lemma float64_ge_one: "1 \<le> x \<Longrightarrow> 1 \<le> float64 x"
  unfolding float64_def by (rule round_to_ge_one) simp_all

lemma float32_le_minus_one: "x \<le> - 1 \<Longrightarrow> float32 x \<le> - 1"
  unfolding float32_def by (rule round_to_le_minus_one) simp_all

lemma float64_le_minus_one: "x \<le> - 1 \<Longrightarrow> float64 x \<le> - 1"
  unfolding float64_def by (rule round_to_le_minus_one) simp_all

text \<open>Evaluation of a rounding at a number that is written out.\<close>

lemmas float_eval = float32_def float64_def round_to_def binade.simps rne_def

text \<open>The constants of the source that are not literals of \<^verbatim>\<open>float\<close> are exact in both formats.\<close>

lemma constants_exact:
  "float32 (float64 (- 1)) = - 1" "float32 (float64 0) = 0" "float32 (float64 1) = 1"
  "float64 3 = 3" "float64 10 = 10"
  "float32 (float64 (- 10000000000)) = - 10000000000"
  by (simp_all add: float_eval)

lemma float32_small: "float32 0 = 0" "float32 1 = 1" "float32 5 = 5"
  by (simp_all add: float_eval)

lemma M_PI_value: "M_PI = 884279719003555 / 281474976710656"
  by (simp add: M_PI_def float_eval)

lemma divisor_value: "ddiv M_PI 3 = 4716158501352293 / 4503599627370496"
  by (simp add: ddiv_def M_PI_value float_eval)

subsection \<open>A lower bound on \<open>\<pi>\<close>\<close>

lemma arctan_partial_sums:
  fixes x :: real
  assumes "0 < x" and "x \<le> 1"
  shows "(\<Sum>i<2 * n. (- 1) ^ i * (1 / real (i * 2 + 1) * x ^ (i * 2 + 1))) \<le> arctan x"
    and "arctan x \<le> (\<Sum>i<2 * n + 1. (- 1) ^ i * (1 / real (i * 2 + 1) * x ^ (i * 2 + 1)))"
proof -
  from assms have abs: "\<bar>x\<bar> \<le> 1" by simp
  from assms have first: "0 < 1 / real (0 * 2 + 1) * x ^ (0 * 2 + 1)" by simp
  from summable_Leibniz(2) [OF zeroseq_arctan_series [OF abs] monoseq_arctan_series [OF abs]] first
  have "\<forall>n. (\<Sum>i. (- 1) ^ i * (1 / real (i * 2 + 1) * x ^ (i * 2 + 1)))
      \<in> {\<Sum>i<2 * n. (- 1) ^ i * (1 / real (i * 2 + 1) * x ^ (i * 2 + 1)) ..
         \<Sum>i<2 * n + 1. (- 1) ^ i * (1 / real (i * 2 + 1) * x ^ (i * 2 + 1))}"
    by blast
  then show "(\<Sum>i<2 * n. (- 1) ^ i * (1 / real (i * 2 + 1) * x ^ (i * 2 + 1))) \<le> arctan x"
    and "arctan x \<le> (\<Sum>i<2 * n + 1. (- 1) ^ i * (1 / real (i * 2 + 1) * x ^ (i * 2 + 1)))"
    unfolding arctan_series [OF abs] by simp_all
qed

lemma pi_lower: "14148475504056879 / 4503599627370496 \<le> pi"
proof -
  have a: "(\<Sum>i<2 * 6. (- 1) ^ i * (1 / real (i * 2 + 1) * (1 / 5) ^ (i * 2 + 1))) \<le> arctan (1 / 5)"
    by (rule arctan_partial_sums) simp_all
  have b: "arctan (1 / 239) \<le> (\<Sum>i<2 * 1 + 1. (- 1) ^ i * (1 / real (i * 2 + 1) * (1 / 239) ^ (i * 2 + 1)))"
    by (rule arctan_partial_sums) simp_all
  have "pi = 16 * arctan (1 / 5) - 4 * arctan (1 / 239)"
    using machin by simp
  with a b have "16 * (\<Sum>i<2 * 6. (- 1) ^ i * (1 / real (i * 2 + 1) * (1 / 5) ^ (i * 2 + 1)))
      - 4 * (\<Sum>i<2 * 1 + 1. (- 1) ^ i * (1 / real (i * 2 + 1) * (1 / 239) ^ (i * 2 + 1))) \<le> pi"
    by linarith
  moreover have "14148475504056879 / 4503599627370496 \<le>
      16 * (\<Sum>i<2 * 6. (- 1) ^ i * (1 / real (i * 2 + 1) * (1 / 5) ^ (i * 2 + 1)))
      - 4 * (\<Sum>i<2 * 1 + 1. (- 1) ^ i * (1 / real (i * 2 + 1) * (1 / 239) ^ (i * 2 + 1)))"
    by (simp add: eval_nat_numeral)
  ultimately show ?thesis by linarith
qed

text \<open>The divisor of the angle in the source is positive and not above \<open>\<pi>/3\<close>.\<close>

lemma divisor_bounds: "0 < ddiv M_PI 3" "ddiv M_PI 3 \<le> pi / 3"
  using pi_lower by (simp_all add: divisor_value)

subsection \<open>What the loops compute\<close>

lemma relu_max: "relu x = max 0 x"
  by (simp add: relu_def max_def)

lemma constrain_clamp: "lo \<le> hi \<Longrightarrow> constrain x lo hi = clamp x lo hi"
  by (simp add: constrain_def clamp_def max_def min_def)

lemma upt_two: "[0..<2] = [0, 1]"
  by (simp add: numeral_2_eq_2)

lemma fold_hidden_accum:
  "h < length (hidden s) \<Longrightarrow>
   fold (hidden_accum h) [0..<n] s =
     s\<lparr>hidden := (hidden s)[h :=
        foldl (\<lambda>acc i. fadd acc (fmul (input s ! i)
                  (weightsInputHidden (self s) ! (i * HIDDEN_SIZE + h))))
          (hidden s ! h) [0..<n]]\<rparr>"
  by (induction n) (simp_all add: hidden_accum_def)

lemma fold_output_accum:
  "j < length (output s) \<Longrightarrow>
   fold (output_accum j) [0..<n] s =
     s\<lparr>output := (output s)[j :=
        foldl (\<lambda>acc h. fadd acc (fmul (hidden s ! h)
                  (weightsHiddenOutput (self s) ! (h * OUTPUT_SIZE + j))))
          (output s ! j) [0..<n]]\<rparr>"
  by (induction n) (simp_all add: output_accum_def)

lemma hidden_body_eq:
  "h < length (hidden s) \<Longrightarrow>
   hidden_body h s = s\<lparr>hidden := (hidden s)[h := hidden_value (self s) (input s) h]\<rparr>"
  by (simp add: hidden_body_def hidden_accum_def INPUT_SIZE_def upt_two relu_max
      hidden_value_def W_ih_def Let_def)

lemma output_body_eq:
  "j < length (output s) \<Longrightarrow>
   output_body j s =
     s\<lparr>output := (output s)[j := output_value (self s) (hidden s) j],
       maxValue := fst (track (output_value (self s) (hidden s)) j (maxValue s, bestAction s)),
       bestAction := snd (track (output_value (self s) (hidden s)) j (maxValue s, bestAction s))\<rparr>"
  by (simp add: output_body_def fold_output_accum output_value_def W_ho_def track_def)

text \<open>After \<open>n\<close> rounds of a loop that fills an array from the left.\<close>

lemma update_prefix:
  "n < length ys \<Longrightarrow> (map f [0..<n] @ drop n ys)[n := f n] = map f [0..<Suc n] @ drop (Suc n) ys"
  by (simp add: list_update_append upd_conv_take_nth_drop)

lemma fold_hidden_body:
  "n \<le> length (hidden s) \<Longrightarrow>
   fold hidden_body [0..<n] s =
     s\<lparr>hidden := map (hidden_value (self s) (input s)) [0..<n] @ drop n (hidden s)\<rparr>"
proof (induction n)
  case 0
  then show ?case by simp
next
  case (Suc n)
  then have n: "n < length (hidden s)" by simp
  let ?f = "hidden_value (self s) (input s)"
  from Suc n have "fold hidden_body [0..<Suc n] s =
      hidden_body n (s\<lparr>hidden := map ?f [0..<n] @ drop n (hidden s)\<rparr>)"
    by simp
  also have "\<dots> = s\<lparr>hidden := (map ?f [0..<n] @ drop n (hidden s))[n := ?f n]\<rparr>"
    using n by (simp add: hidden_body_eq)
  finally show ?case using n by (simp only: update_prefix)
qed

lemma fold_output_body:
  "n \<le> length (output s) \<Longrightarrow>
   fold output_body [0..<n] s =
     s\<lparr>output := map (output_value (self s) (hidden s)) [0..<n] @ drop n (output s),
       maxValue := fst (fold (track (output_value (self s) (hidden s))) [0..<n]
                         (maxValue s, bestAction s)),
       bestAction := snd (fold (track (output_value (self s) (hidden s))) [0..<n]
                         (maxValue s, bestAction s))\<rparr>"
proof (induction n)
  case 0
  then show ?case by simp
next
  case (Suc n)
  then have n: "n < length (output s)" by simp
  let ?f = "output_value (self s) (hidden s)"
  let ?mb = "fold (track ?f) [0..<n] (maxValue s, bestAction s)"
  from Suc n have "fold output_body [0..<Suc n] s =
      output_body n (s\<lparr>output := map ?f [0..<n] @ drop n (output s),
         maxValue := fst ?mb, bestAction := snd ?mb\<rparr>)"
    by simp
  also have "\<dots> = s\<lparr>output := (map ?f [0..<n] @ drop n (output s))[n := ?f n],
         maxValue := fst (track ?f n ?mb), bestAction := snd (track ?f n ?mb)\<rparr>"
    using n by (simp add: output_body_eq)
  finally show ?case using n by (simp only: update_prefix) simp
qed

lemma normalize_eq:
  assumes "length (input s) = INPUT_SIZE"
  shows "normalize a v s = s\<lparr>input := normalized a v\<rparr>"
proof -
  from assms obtain x y where "input s = [x, y]"
    by (cases "input s"; cases "tl (input s)") (auto simp: INPUT_SIZE_def)
  then show ?thesis
    by (simp add: normalize_def normalized_def constrain_clamp)
qed

text \<open>The frame at the \<^verbatim>\<open>return\<close>, for any frame on entry with arrays of the right sizes.\<close>

lemma getAction_body_eq:
  assumes "well_sized s"
  shows "getAction_body a v s =
     s\<lparr>input := normalized a v, hidden := hidden_values (self s) a v,
       output := map (score (self s) a v) [0..<OUTPUT_SIZE],
       maxValue := fst (fold (track (score (self s) a v)) [0..<OUTPUT_SIZE] (sentinel, 0)),
       bestAction := snd (fold (track (score (self s) a v)) [0..<OUTPUT_SIZE] (sentinel, 0))\<rparr>"
  using assms
  by (simp add: getAction_body_def well_sized_def normalize_eq fold_hidden_body fold_output_body
      hidden_values_def score_def sentinel_def constants_exact)

lemma well_sized_entry: "well_sized (entry P)"
  by (simp add: well_sized_def entry_def)

lemma getAction_eq:
  "getAction P a v = snd (fold (track (score P a v)) [0..<OUTPUT_SIZE] (sentinel, 0))"
  by (simp add: getAction_def getAction_body_eq [OF well_sized_entry]) (simp add: entry_def)

lemma input_at_return:
  "input (getAction_body a v (entry P)) =
     [constrain (float32 (ddiv a (ddiv M_PI 3))) (- 1) 1,
      constrain (float32 (ddiv v 10)) (- 1) 1]"
  by (simp add: getAction_body_eq [OF well_sized_entry] normalized_def constrain_clamp)

lemma hidden_entry_list:
  "hidden (getAction_body a v (entry P)) = hidden_values P a v"
  using getAction_body_eq [OF well_sized_entry, of a v P] by (simp add: entry_def)

lemma output_entry_list:
  "output (getAction_body a v (entry P)) = map (score P a v) [0..<OUTPUT_SIZE]"
  using getAction_body_eq [OF well_sized_entry, of a v P] by (simp add: entry_def)

lemma output_entry:
  "j < OUTPUT_SIZE \<Longrightarrow> output (getAction_body a v (entry P)) ! j = score P a v j"
  by (simp add: output_entry_list)

lemma output_length: "length (output (getAction_body a v (entry P))) = 3"
  by (simp add: output_entry_list OUTPUT_SIZE_def)

lemma maxValue_entry:
  "maxValue (getAction_body a v (entry P)) =
     fst (fold (track (score P a v)) [0..<OUTPUT_SIZE] (sentinel, 0))"
  using getAction_body_eq [OF well_sized_entry, of a v P] by (simp add: entry_def)

subsection \<open>The selection loop\<close>

lemma track_fold_inv:
  "fold (track f) [0..<n] (m0, b0) = (m, b) \<Longrightarrow>
   m0 \<le> m \<and> (\<forall>j<n. f j \<le> m) \<and>
   ((m = m0 \<and> b = b0) \<or> (\<exists>j<n. b = int j \<and> m = f j \<and> m0 < f j \<and> (\<forall>i<j. f i < f j)))"
proof (induction n arbitrary: m b)
  case 0
  then show ?case by simp
next
  case (Suc n)
  obtain m' b' where prev: "fold (track f) [0..<n] (m0, b0) = (m', b')"
    by (cases "fold (track f) [0..<n] (m0, b0)")
  note IH = Suc.IH [OF prev]
  from Suc.prems prev have step: "track f n (m', b') = (m, b)" by simp
  show ?case
  proof (cases "f n > m'")
    case True
    with step have mb: "m = f n" "b = int n" by (simp_all add: track_def)
    from IH True have "\<forall>i<n. f i < f n" by auto
    with IH True mb show ?thesis by (auto simp: less_Suc_eq)
  next
    case False
    with step have mb: "m = m'" "b = b'" by (simp_all add: track_def)
    with IH False show ?thesis by (auto simp: less_Suc_eq)
  qed
qed

text \<open>The result is one of the indices \<open>0, \<dots>, n - 1\<close>, or the initial index.\<close>

lemma track_fold_index:
  "snd (fold (track f) [0..<n] (m0, 0)) = 0 \<or> (\<exists>j<n. snd (fold (track f) [0..<n] (m0, 0)) = int j)"
  using track_fold_inv [of f n m0 0 "fst (fold (track f) [0..<n] (m0, 0))"
      "snd (fold (track f) [0..<n] (m0, 0))"]
  by auto

text \<open>If some score is above the initial maximum, the first greatest score is selected.\<close>

lemma track_fold_first_maximum:
  assumes "\<exists>j<n. m0 < f j"
  shows "first_maximum (map f [0..<n]) (snd (fold (track f) [0..<n] (m0, 0)))
     \<and> fst (fold (track f) [0..<n] (m0, 0)) = f (nat (snd (fold (track f) [0..<n] (m0, 0))))"
proof -
  obtain m b where mb: "fold (track f) [0..<n] (m0, 0) = (m, b)"
    by (cases "fold (track f) [0..<n] (m0, 0)")
  note inv = track_fold_inv [OF mb]
  from assms inv have "m \<noteq> m0" by fastforce
  with inv obtain j where j: "j < n" "b = int j" "m = f j" "\<forall>i<j. f i < f j" by auto
  with inv show ?thesis by (simp add: mb first_maximum_def)
qed

subsection \<open>Bounds on the scores\<close>

lemma all_within_nth: "all_within c xs \<Longrightarrow> i < length xs \<Longrightarrow> \<bar>xs ! i\<bar> \<le> c"
  by (simp add: all_within_def list_all_length)

lemma clamp_unit: "\<bar>clamp x (- 1) 1\<bar> \<le> 1"
  by (auto simp: clamp_def max_def min_def abs_le_iff)

lemma normalized_bounds: "\<bar>normalized a v ! 0\<bar> \<le> 1" "\<bar>normalized a v ! 1\<bar> \<le> 1"
  by (simp_all add: normalized_def clamp_unit)

text \<open>A bound by an integer below \<open>2^24\<close> survives the rounding to binary32.\<close>

lemma float32_bound:
  "\<bar>x\<bar> \<le> numeral k \<Longrightarrow> numeral k < (16777216::int) \<Longrightarrow> \<bar>float32 x\<bar> \<le> numeral k"
  using float32_abs_le [of x "numeral k"] by simp

lemma product_bound:
  fixes x w :: real
  assumes "\<bar>x\<bar> \<le> c" and "\<bar>w\<bar> \<le> d"
  shows "\<bar>x * w\<bar> \<le> c * d"
proof -
  have "\<bar>x * w\<bar> = \<bar>x\<bar> * \<bar>w\<bar>" by (rule abs_mult)
  also from assms have "\<dots> \<le> c * d" by (intro mult_mono) simp_all
  finally show ?thesis .
qed

lemma hidden_value_bounds:
  assumes P: "params_within P" and x: "\<bar>x ! 0\<bar> \<le> 1" "\<bar>x ! 1\<bar> \<le> 1" and h: "h < HIDDEN_SIZE"
  shows "0 \<le> hidden_value P x h \<and> hidden_value P x h \<le> 30"
proof -
  from P h have b: "\<bar>biasHidden P ! h\<bar> \<le> 10"
    by (simp add: params_within_def all_within_nth)
  from P h have "\<bar>W_ih P 0 h\<bar> \<le> 10" "\<bar>W_ih P 1 h\<bar> \<le> 10"
    by (simp_all add: params_within_def W_ih_def all_within_nth INPUT_SIZE_def HIDDEN_SIZE_def)
  with x have "\<bar>x ! 0 * W_ih P 0 h\<bar> \<le> 1 * 10" "\<bar>x ! 1 * W_ih P 1 h\<bar> \<le> 1 * 10"
    by (simp_all only: product_bound)
  then have p: "\<bar>fmul (x ! 0) (W_ih P 0 h)\<bar> \<le> 10" "\<bar>fmul (x ! 1) (W_ih P 1 h)\<bar> \<le> 10"
    unfolding fmul_def by (simp_all add: float32_bound)
  from b p(1) have "\<bar>biasHidden P ! h + fmul (x ! 0) (W_ih P 0 h)\<bar> \<le> 20"
    by linarith
  then have s: "\<bar>fadd (biasHidden P ! h) (fmul (x ! 0) (W_ih P 0 h))\<bar> \<le> 20"
    unfolding fadd_def by (simp add: float32_bound)
  from s p(2)
  have "\<bar>fadd (biasHidden P ! h) (fmul (x ! 0) (W_ih P 0 h)) + fmul (x ! 1) (W_ih P 1 h)\<bar> \<le> 30"
    by linarith
  then have "\<bar>fadd (fadd (biasHidden P ! h) (fmul (x ! 0) (W_ih P 0 h)))
      (fmul (x ! 1) (W_ih P 1 h))\<bar> \<le> 30"
    unfolding fadd_def [of "fadd _ _"] by (simp add: float32_bound)
  then show ?thesis
    unfolding hidden_value_def by (simp add: max_def) linarith
qed

text \<open>The accumulation of the output layer: each step adds at most 300.\<close>

lemma accumulate_bound:
  assumes t: "\<forall>k<n. \<bar>t k\<bar> \<le> 300" and b: "\<bar>b\<bar> \<le> 10" and n: "n \<le> 64"
  shows "\<bar>foldl (\<lambda>acc k. fadd acc (t k)) b [0..<n]\<bar> \<le> of_int (10 + 300 * int n)"
  using t n
proof (induction n)
  case 0
  with b show ?case by simp
next
  case (Suc n)
  then have "\<bar>foldl (\<lambda>acc k. fadd acc (t k)) b [0..<n]\<bar> \<le> of_int (10 + 300 * int n)"
    and "\<bar>t n\<bar> \<le> 300"
    by simp_all
  then have "\<bar>foldl (\<lambda>acc k. fadd acc (t k)) b [0..<n] + t n\<bar> \<le> of_int (10 + 300 * int (Suc n))"
    by simp
  moreover from Suc.prems have "10 + 300 * int (Suc n) < 16777216"
    by simp
  ultimately have "\<bar>float32 (foldl (\<lambda>acc k. fadd acc (t k)) b [0..<n] + t n)\<bar>
      \<le> of_int (10 + 300 * int (Suc n))"
    by (rule float32_abs_le)
  then show ?case
    by (simp add: fadd_def)
qed

lemma output_value_bound:
  assumes P: "params_within P" and hs: "\<forall>k<HIDDEN_SIZE. 0 \<le> hs ! k \<and> hs ! k \<le> 30"
    and j: "j < OUTPUT_SIZE"
  shows "\<bar>output_value P hs j\<bar> \<le> 19210"
proof -
  from P j have b: "\<bar>biasOutput P ! j\<bar> \<le> 10"
    by (simp add: params_within_def all_within_nth)
  have each: "\<bar>fmul (hs ! k) (W_ho P k j)\<bar> \<le> 300" if k: "k < HIDDEN_SIZE" for k
  proof -
    from k j have "k * OUTPUT_SIZE + j < HIDDEN_SIZE * OUTPUT_SIZE"
      by (simp add: HIDDEN_SIZE_def OUTPUT_SIZE_def)
    with P have "\<bar>W_ho P k j\<bar> \<le> 10"
      by (simp add: params_within_def W_ho_def all_within_nth)
    moreover from hs k have "\<bar>hs ! k\<bar> \<le> 30" by simp
    ultimately have "\<bar>hs ! k * W_ho P k j\<bar> \<le> 30 * 10" by (rule product_bound [rotated])
    then show ?thesis
      unfolding fmul_def by (simp add: float32_bound)
  qed
  have "\<bar>foldl (\<lambda>acc k. fadd acc (fmul (hs ! k) (W_ho P k j))) (biasOutput P ! j) [0..<64]\<bar>
      \<le> of_int (10 + 300 * int 64)"
    by (rule accumulate_bound) (simp_all add: each b HIDDEN_SIZE_def)
  then show ?thesis
    by (simp add: output_value_def HIDDEN_SIZE_def)
qed

lemma score_bound:
  assumes "params_within P" and "j < OUTPUT_SIZE"
  shows "\<bar>score P a v j\<bar> \<le> 19210"
  unfolding score_def
proof (rule output_value_bound [OF assms(1) _ assms(2)], intro allI impI)
  fix k
  assume "k < HIDDEN_SIZE"
  then show "0 \<le> hidden_values P a v ! k \<and> hidden_values P a v ! k \<le> 30"
    using hidden_value_bounds [OF assms(1) normalized_bounds(1) normalized_bounds(2)]
    by (simp add: hidden_values_def)
qed

text \<open>A literal of magnitude at most 10 is rounded to a number of magnitude at most 10.\<close>

lemma all_within_float32:
  "list_all (\<lambda>d. \<bar>d\<bar> \<le> 10) ds \<Longrightarrow> all_within 10 (map float32 ds)"
  by (induction ds) (simp_all add: all_within_def float32_bound)

lemma good_within: "params_within good_bot"
  by (simp add: params_within_def good_bot_def all_within_float32 INPUT_SIZE_def HIDDEN_SIZE_def
      OUTPUT_SIZE_def del: list.map)

lemma great_within: "params_within great_bot"
  by (simp add: params_within_def great_bot_def all_within_float32 INPUT_SIZE_def HIDDEN_SIZE_def
      OUTPUT_SIZE_def del: list.map)

lemma okayish_within: "params_within okayish_bot"
  by (simp add: params_within_def okayish_bot_def all_within_float32 INPUT_SIZE_def HIDDEN_SIZE_def
      OUTPUT_SIZE_def del: list.map)

lemma shipped_within: "shipped P \<Longrightarrow> params_within P"
  using good_within great_within okayish_within by (auto simp: shipped_def)

lemma shipped_above_sentinel:
  assumes "shipped P" and "j < OUTPUT_SIZE"
  shows "sentinel < score P a v j"
  using score_bound [OF shipped_within [OF assms(1)] assms(2), of a v]
  by (simp add: sentinel_def)

subsection \<open>The synthetic network\<close>

lemma accumulate_zero:
  "\<forall>k<n. t k = 0 \<Longrightarrow> float32 b = b \<Longrightarrow> foldl (\<lambda>acc k. fadd acc (t k)) b [0..<n] = b"
  by (induction n) (simp_all add: fadd_def)

text \<open>The scores of the synthetic network are its output biases.\<close>

lemma tie_score: "j < OUTPUT_SIZE \<Longrightarrow> score tie_bot a v j = [5, 1, 5] ! j"
proof -
  assume j: "j < OUTPUT_SIZE"
  have zero: "\<forall>k<64. fmul (hidden_values tie_bot a v ! k) (W_ho tie_bot k j) = 0"
  proof (intro allI impI)
    fix k :: nat
    assume "k < 64"
    with j have "k * OUTPUT_SIZE + j < HIDDEN_SIZE * OUTPUT_SIZE"
      by (simp add: HIDDEN_SIZE_def OUTPUT_SIZE_def)
    then have "W_ho tie_bot k j = 0"
      by (simp add: W_ho_def tie_bot_def)
    then show "fmul (hidden_values tie_bot a v ! k) (W_ho tie_bot k j) = 0"
      by (simp add: fmul_def float32_small)
  qed
  from j have "j = 0 \<or> j = 1 \<or> j = 2"
    by (auto simp: OUTPUT_SIZE_def)
  then have fixed: "float32 (biasOutput tie_bot ! j) = biasOutput tie_bot ! j"
    by (auto simp: tie_bot_def float32_small)
  show ?thesis
    unfolding score_def output_value_def HIDDEN_SIZE_def
    by (simp only: accumulate_zero [OF zero fixed]) (simp add: tie_bot_def)
qed

subsection \<open>Saturation\<close>

lemma constrain_high: "1 \<le> t \<Longrightarrow> constrain t (- 1) 1 = 1"
  by (simp add: constrain_def)

lemma constrain_low: "t \<le> - 1 \<Longrightarrow> constrain t (- 1) 1 = - 1"
  by (simp add: constrain_def)

lemma quotient_saturates_high:
  assumes "0 < c" and "c \<le> a"
  shows "constrain (float32 (ddiv a c)) (- 1) 1 = 1"
proof -
  from assms have "1 \<le> a / c" by (simp add: pos_le_divide_eq)
  then have "1 \<le> float32 (ddiv a c)"
    unfolding ddiv_def by (intro float32_ge_one float64_ge_one)
  then show ?thesis by (rule constrain_high)
qed

lemma quotient_saturates_low:
  assumes "0 < c" and "a \<le> - c"
  shows "constrain (float32 (ddiv a c)) (- 1) 1 = - 1"
proof -
  from assms have "a / c \<le> - 1" by (simp add: pos_divide_le_eq)
  then have "float32 (ddiv a c) \<le> - 1"
    unfolding ddiv_def by (intro float32_le_minus_one float64_le_minus_one)
  then show ?thesis by (rule constrain_low)
qed

subsection \<open>The three files\<close>

lemma great_relu: "great_relu = relu"
  by (simp add: fun_eq_iff great_relu_def relu_def)

lemma great_constrain: "great_constrain = constrain"
  by (simp add: fun_eq_iff great_constrain_def constrain_def)

lemma great_normalize: "great_normalize = normalize"
  by (simp add: fun_eq_iff great_normalize_def normalize_def great_constrain)

lemma great_hidden_accum: "great_hidden_accum = hidden_accum"
  by (simp add: fun_eq_iff great_hidden_accum_def hidden_accum_def)

lemma great_hidden_body: "great_hidden_body = hidden_body"
  by (simp add: fun_eq_iff great_hidden_body_def hidden_body_def great_hidden_accum great_relu)

lemma great_output_accum: "great_output_accum = output_accum"
  by (simp add: fun_eq_iff great_output_accum_def output_accum_def)

lemma great_output_body: "great_output_body = output_body"
  by (simp add: fun_eq_iff great_output_body_def output_body_def great_output_accum)

lemma great_getAction_body: "great_getAction_body = getAction_body"
  by (simp add: fun_eq_iff great_getAction_body_def getAction_body_def great_normalize
      great_hidden_body great_output_body)

lemma great_getAction: "great_getAction = getAction"
  by (simp add: fun_eq_iff great_getAction_def getAction_def great_getAction_body)

lemma great_getMotorTorque: "great_getMotorTorque = getMotorTorque"
  by (simp add: fun_eq_iff great_getMotorTorque_def getMotorTorque_def great_actions_def
      actions_def)

lemma okayish_relu: "okayish_relu = relu"
  by (simp add: fun_eq_iff okayish_relu_def relu_def)

lemma okayish_constrain: "okayish_constrain = constrain"
  by (simp add: fun_eq_iff okayish_constrain_def constrain_def)

lemma okayish_normalize: "okayish_normalize = normalize"
  by (simp add: fun_eq_iff okayish_normalize_def normalize_def okayish_constrain)

lemma okayish_hidden_accum: "okayish_hidden_accum = hidden_accum"
  by (simp add: fun_eq_iff okayish_hidden_accum_def hidden_accum_def)

lemma okayish_hidden_body: "okayish_hidden_body = hidden_body"
  by (simp add: fun_eq_iff okayish_hidden_body_def hidden_body_def okayish_hidden_accum
      okayish_relu)

lemma okayish_output_accum: "okayish_output_accum = output_accum"
  by (simp add: fun_eq_iff okayish_output_accum_def output_accum_def)

lemma okayish_output_body: "okayish_output_body = output_body"
  by (simp add: fun_eq_iff okayish_output_body_def output_body_def okayish_output_accum)

lemma okayish_getAction_body: "okayish_getAction_body = getAction_body"
  by (simp add: fun_eq_iff okayish_getAction_body_def getAction_body_def okayish_normalize
      okayish_hidden_body okayish_output_body)

lemma okayish_getAction: "okayish_getAction = getAction"
  by (simp add: fun_eq_iff okayish_getAction_def getAction_def okayish_getAction_body)

lemma okayish_getMotorTorque: "okayish_getMotorTorque = getMotorTorque"
  by (simp add: fun_eq_iff okayish_getMotorTorque_def getMotorTorque_def okayish_actions_def
      actions_def)

text \<open>The first output bias of each file, as the \<^verbatim>\<open>float\<close> it denotes.\<close>

lemma first_output_bias:
  "biasOutput good_bot ! 0 = 5242875 / 524288"
  "biasOutput great_bot ! 0 = 10209657 / 16777216"
  "biasOutput okayish_bot ! 0 = 9971807 / 1048576"
  by (simp_all add: good_bot_def great_bot_def okayish_bot_def float_eval)

lemma tensors_differ:
  "good_bot \<noteq> great_bot" "good_bot \<noteq> okayish_bot" "great_bot \<noteq> okayish_bot"
proof -
  have "biasOutput good_bot ! 0 \<noteq> biasOutput great_bot ! 0"
    "biasOutput good_bot ! 0 \<noteq> biasOutput okayish_bot ! 0"
    "biasOutput great_bot ! 0 \<noteq> biasOutput okayish_bot ! 0"
    by (simp_all add: first_output_bias)
  then show "good_bot \<noteq> great_bot" "good_bot \<noteq> okayish_bot" "great_bot \<noteq> okayish_bot"
    by auto
qed

section \<open>The claims\<close>

text \<open>
  C1. \<^verbatim>\<open>getAction\<close> returns the index of the greatest of the three scores in \<^verbatim>\<open>output\<close>,
  and the lowest such index when the greatest score occurs more than once: the running
  maximum starts at the sentinel \<open>-1e10\<close> and is replaced only by a strictly greater
  score. This holds for each shipped parameter set and every pair of inputs, and for any
  other parameter set whenever one of its scores is above the sentinel. In particular,
  when the scores at the indices 0 and 2 are equal and the score at 1 is not greater, the
  result is 0.
\<close>

theorem getAction_first_maximum:
  assumes "shipped P \<or> (\<exists>j<OUTPUT_SIZE. sentinel < output (getAction_body a v (entry P)) ! j)"
  shows "first_maximum (output (getAction_body a v (entry P))) (getAction P a v)
     \<and> (output (getAction_body a v (entry P)) ! 0 = output (getAction_body a v (entry P)) ! 2
          \<and> output (getAction_body a v (entry P)) ! 1 \<le> output (getAction_body a v (entry P)) ! 0
        \<longrightarrow> getAction P a v = 0)"
proof -
  let ?out = "output (getAction_body a v (entry P))"
  have out: "?out = map (score P a v) [0..<OUTPUT_SIZE]"
    by (rule output_entry_list)
  have above: "\<exists>j<OUTPUT_SIZE. sentinel < score P a v j"
  proof (cases "shipped P")
    case True
    have "0 < OUTPUT_SIZE" by (simp add: OUTPUT_SIZE_def)
    with True show ?thesis by (blast intro: shipped_above_sentinel)
  next
    case False
    with assms show ?thesis by (auto simp: out)
  qed
  from track_fold_first_maximum [OF above]
  have first: "first_maximum ?out (getAction P a v)"
    by (simp add: out getAction_eq)
  have tie: "getAction P a v = 0" if eq: "?out ! 0 = ?out ! 2" and le: "?out ! 1 \<le> ?out ! 0"
  proof -
    from first have r: "0 \<le> getAction P a v" "nat (getAction P a v) < length ?out"
      and before: "\<forall>j<nat (getAction P a v). ?out ! j < ?out ! nat (getAction P a v)"
      unfolding first_maximum_def by blast+
    from r(2) consider "nat (getAction P a v) = 0" | "nat (getAction P a v) = 1"
      | "nat (getAction P a v) = 2"
      unfolding output_length by arith
    then show ?thesis
    proof cases
      case 1
      with r(1) show ?thesis by simp
    next
      case 2
      with before have "?out ! 0 < ?out ! 1" by simp
      with le show ?thesis by simp
    next
      case 3
      with before have "?out ! 0 < ?out ! 2" by simp
      with eq show ?thesis by simp
    qed
  qed
  from first tie show ?thesis by blast
qed

theorem getAction_first_maximum_witness:
  "output (getAction_body 0 0 (entry tie_bot)) ! 0 = 5
   \<and> output (getAction_body 0 0 (entry tie_bot)) ! 1 = 1
   \<and> output (getAction_body 0 0 (entry tie_bot)) ! 2 = 5
   \<and> getAction tie_bot 0 0 = 0"
proof -
  let ?t = "output (getAction_body 0 0 (entry tie_bot))"
  have idx: "0 < OUTPUT_SIZE" "1 < OUTPUT_SIZE" "2 < OUTPUT_SIZE"
    by (simp_all add: OUTPUT_SIZE_def)
  have t: "?t ! 0 = 5" "?t ! 1 = 1" "?t ! 2 = 5"
    by (simp_all only: output_entry [OF idx(1)] output_entry [OF idx(2)] output_entry [OF idx(3)]
        tie_score [OF idx(1)] tie_score [OF idx(2)] tie_score [OF idx(3)]) simp_all
  have "\<exists>j<OUTPUT_SIZE. sentinel < ?t ! j"
  proof (intro exI conjI)
    show "0 < OUTPUT_SIZE" by (simp add: OUTPUT_SIZE_def)
    show "sentinel < ?t ! 0" by (simp add: t sentinel_def)
  qed
  then have "shipped tie_bot \<or> (\<exists>j<OUTPUT_SIZE. sentinel < ?t ! j)" ..
  from getAction_first_maximum [OF this] t have tie: "getAction tie_bot 0 0 = 0"
    by simp
  from t tie show ?thesis by simp
qed

text \<open>
  C2. At the end of a call of \<^verbatim>\<open>getAction\<close> the array \<^verbatim>\<open>hidden\<close> has 64 cells and the array
  \<^verbatim>\<open>output\<close> has 3. The cell \<open>h\<close> of \<^verbatim>\<open>hidden\<close> holds
  \<open>max(0, biasHidden[h] + input[0] * W_ih[0][h] + input[1] * W_ih[1][h])\<close>, computed in this
  order: the bias first, then the product for input 0, then the product for input 1. The
  cell \<open>j\<close> of \<^verbatim>\<open>output\<close> holds \<open>biasOutput[j]\<close> to which the products \<open>hidden[k] * W_ho[k][j]\<close>
  have been added one after the other for \<open>k = 0, \<dots>, 63\<close>; nothing else is applied to it.
  The sums and products are those of \<^verbatim>\<open>float\<close>: each is rounded to binary32.
\<close>

theorem forward_pass:
  "HIDDEN_SIZE = 64 \<and> OUTPUT_SIZE = 3
   \<and> length (hidden (getAction_body a v (entry P))) = 64
   \<and> length (output (getAction_body a v (entry P))) = 3
   \<and> (\<forall>h<64. hidden (getAction_body a v (entry P)) ! h =
         max 0 (fadd (fadd (biasHidden P ! h)
                        (fmul (input (getAction_body a v (entry P)) ! 0) (W_ih P 0 h)))
                  (fmul (input (getAction_body a v (entry P)) ! 1) (W_ih P 1 h))))
   \<and> (\<forall>j<3. output (getAction_body a v (entry P)) ! j =
         foldl (\<lambda>acc k. fadd acc (fmul (hidden (getAction_body a v (entry P)) ! k) (W_ho P k j)))
           (biasOutput P ! j) [0..<64])"
proof -
  let ?s = "getAction_body a v (entry P)"
  have s: "?s = (entry P)\<lparr>input := normalized a v, hidden := hidden_values P a v,
       output := map (score P a v) [0..<OUTPUT_SIZE],
       maxValue := fst (fold (track (score P a v)) [0..<OUTPUT_SIZE] (sentinel, 0)),
       bestAction := snd (fold (track (score P a v)) [0..<OUTPUT_SIZE] (sentinel, 0))\<rparr>"
    using getAction_body_eq [OF well_sized_entry, of a v P] by (simp add: entry_def)
  have hid: "\<forall>h<64. hidden ?s ! h =
      max 0 (fadd (fadd (biasHidden P ! h) (fmul (input ?s ! 0) (W_ih P 0 h)))
               (fmul (input ?s ! 1) (W_ih P 1 h)))"
    by (simp add: s hidden_values_def hidden_value_def HIDDEN_SIZE_def)
  have out: "\<forall>j<3. output ?s ! j =
      foldl (\<lambda>acc k. fadd acc (fmul (hidden ?s ! k) (W_ho P k j))) (biasOutput P ! j) [0..<64]"
    by (simp add: s score_def output_value_def HIDDEN_SIZE_def OUTPUT_SIZE_def)
  have "length (hidden ?s) = 64" "length (output ?s) = 3"
    by (simp_all add: s hidden_values_def HIDDEN_SIZE_def OUTPUT_SIZE_def)
  with hid out show ?thesis
    by (simp only: HIDDEN_SIZE_def OUTPUT_SIZE_def simp_thms)
qed

theorem forward_pass_witness:
  "hidden (getAction_body 0 0 (entry good_bot)) ! 4 = 4862843 / 524288
   \<and> hidden (getAction_body 0 0 (entry good_bot)) ! 2 = 0
   \<and> output (getAction_body 0 0 (entry tie_bot)) ! 2 = 5"
proof -
  have inp: "input (getAction_body 0 0 (entry P)) ! 0 = 0"
    "input (getAction_body 0 0 (entry P)) ! Suc 0 = 0" for P
    by (simp_all add: input_at_return constrain_def ddiv_def constants_exact float32_small)
  have b: "biasHidden good_bot ! 4 = float32 9.275137" "biasHidden good_bot ! 2 = float32 (- 6.501798)"
    by (simp_all add: good_bot_def)
  note G = forward_pass [of 0 0 good_bot]
  note T = forward_pass [of 0 0 tie_bot]
  from G have "hidden (getAction_body 0 0 (entry good_bot)) ! 4 =
      max 0 (float32 (float32 (biasHidden good_bot ! 4)))"
    by (simp add: inp fmul_def fadd_def float32_small)
  then have g4: "hidden (getAction_body 0 0 (entry good_bot)) ! 4 = 4862843 / 524288"
    unfolding b by (simp add: float_eval)
  from G have "hidden (getAction_body 0 0 (entry good_bot)) ! 2 =
      max 0 (float32 (float32 (biasHidden good_bot ! 2)))"
    by (simp add: inp fmul_def fadd_def float32_small)
  then have g2: "hidden (getAction_body 0 0 (entry good_bot)) ! 2 = 0"
    unfolding b by (simp add: float_eval)
  have zero: "\<forall>k<64. fmul (hidden (getAction_body 0 0 (entry tie_bot)) ! k) (W_ho tie_bot k 2) = 0"
    by (simp add: W_ho_def tie_bot_def HIDDEN_SIZE_def OUTPUT_SIZE_def fmul_def float32_small)
  have five: "float32 (biasOutput tie_bot ! 2) = biasOutput tie_bot ! 2"
    by (simp add: tie_bot_def float32_small)
  from T have "output (getAction_body 0 0 (entry tie_bot)) ! 2 =
      foldl (\<lambda>acc k. fadd acc (fmul (hidden (getAction_body 0 0 (entry tie_bot)) ! k)
                (W_ho tie_bot k 2))) (biasOutput tie_bot ! 2) [0..<64]"
    by simp
  also have "\<dots> = biasOutput tie_bot ! 2"
    using zero five by (rule accumulate_zero)
  finally have t2: "output (getAction_body 0 0 (entry tie_bot)) ! 2 = 5"
    by (simp add: tie_bot_def)
  from g4 g2 t2 show ?thesis by simp
qed

text \<open>
  C3. The two inputs of the network are the angle divided by \<open>\<pi>/3\<close> (in the source
  \<^verbatim>\<open>M_PI / 3\<close>) and the angular velocity divided by 10, each quotient computed in \<^verbatim>\<open>double\<close>,
  converted to \<^verbatim>\<open>float\<close> and passed through \<^verbatim>\<open>constrain\<close> with the bounds \<open>-1\<close> and \<open>1\<close>.
  \<^verbatim>\<open>constrain\<close> saturates: below \<open>-1\<close> it gives \<open>-1\<close>, above \<open>1\<close> it gives \<open>1\<close>, and a value
  between the bounds, the bounds included, is returned as it is. So an angle of at least
  \<open>\<pi>/3\<close> is normalised to exactly \<open>1\<close> and one of at most \<open>-\<pi>/3\<close> to exactly \<open>-1\<close>, whatever
  its size, and the same holds for the angular velocity at \<open>10\<close> and \<open>-10\<close>.
\<close>

theorem normalization_saturates:
  "input (getAction_body a v (entry P)) =
     [constrain (float32 (ddiv a (ddiv M_PI 3))) (- 1) 1,
      constrain (float32 (ddiv v 10)) (- 1) 1]
   \<and> (x < - 1 \<longrightarrow> constrain x (- 1) 1 = - 1) \<and> (1 < x \<longrightarrow> constrain x (- 1) 1 = 1)
   \<and> (- 1 \<le> x \<and> x \<le> 1 \<longrightarrow> constrain x (- 1) 1 = x)
   \<and> (pi / 3 \<le> a \<longrightarrow> input (getAction_body a v (entry P)) ! 0 = 1)
   \<and> (a \<le> - (pi / 3) \<longrightarrow> input (getAction_body a v (entry P)) ! 0 = - 1)
   \<and> (10 \<le> v \<longrightarrow> input (getAction_body a v (entry P)) ! 1 = 1)
   \<and> (v \<le> - 10 \<longrightarrow> input (getAction_body a v (entry P)) ! 1 = - 1)"
proof -
  note c = divisor_bounds
  have ten: "(0::real) < 10" by simp
  have at0: "input (getAction_body a v (entry P)) ! 0 =
      constrain (float32 (ddiv a (ddiv M_PI 3))) (- 1) 1"
    by (simp only: input_at_return nth_Cons_0)
  have at1: "input (getAction_body a v (entry P)) ! 1 = constrain (float32 (ddiv v 10)) (- 1) 1"
    by (simp only: input_at_return One_nat_def nth_Cons_Suc nth_Cons_0)
  show ?thesis
  proof (intro conjI impI)
    show "input (getAction_body a v (entry P)) =
        [constrain (float32 (ddiv a (ddiv M_PI 3))) (- 1) 1,
         constrain (float32 (ddiv v 10)) (- 1) 1]"
      by (rule input_at_return)
    show "constrain x (- 1) 1 = - 1" if "x < - 1"
      using that by (simp add: constrain_def)
    show "constrain x (- 1) 1 = 1" if "1 < x"
      using that by (simp add: constrain_def)
    show "constrain x (- 1) 1 = x" if "- 1 \<le> x \<and> x \<le> 1"
      using that by (simp add: constrain_def)
    show "input (getAction_body a v (entry P)) ! 0 = 1" if "pi / 3 \<le> a"
    proof -
      from c(2) that have "ddiv M_PI 3 \<le> a" by linarith
      with c(1) show ?thesis unfolding at0 by (rule quotient_saturates_high)
    qed
    show "input (getAction_body a v (entry P)) ! 0 = - 1" if "a \<le> - (pi / 3)"
    proof -
      from c(2) that have "a \<le> - ddiv M_PI 3" by linarith
      with c(1) show ?thesis unfolding at0 by (rule quotient_saturates_low)
    qed
    show "input (getAction_body a v (entry P)) ! 1 = 1" if "10 \<le> v"
      unfolding at1 using ten that by (rule quotient_saturates_high)
    show "input (getAction_body a v (entry P)) ! 1 = - 1" if "v \<le> - 10"
      unfolding at1 using ten that by (rule quotient_saturates_low)
  qed
qed

theorem normalization_saturates_witness:
  "input (getAction_body pi (- 25) (entry good_bot)) ! 0 = 1
   \<and> input (getAction_body pi (- 25) (entry good_bot)) ! 1 = - 1
   \<and> input (getAction_body (- 4) 10 (entry good_bot)) ! 0 = - 1
   \<and> input (getAction_body (- 4) 10 (entry good_bot)) ! 1 = 1
   \<and> input (getAction_body 0 (- 2) (entry good_bot)) = [0, - 13421773 / 67108864]
   \<and> constrain 1 (- 1) 1 = 1 \<and> constrain (- 1) (- 1) 1 = - 1
   \<and> constrain (- 7) (- 1) 1 = - 1 \<and> constrain 7 (- 1) 1 = 1"
proof -
  have big: "pi / 3 \<le> pi"
    using pi_gt_zero by simp
  have small: "- 4 \<le> - (pi / 3)"
    using pi_less_4 by simp
  have v1: "(- 25 :: real) \<le> - 10" and v2: "(10 :: real) \<le> 10"
    by simp_all
  note A = normalization_saturates [of pi "- 25" good_bot 1]
  note B = normalization_saturates [of "- 4" 10 good_bot "- 1"]
  note C = normalization_saturates [of 0 "- 2" good_bot "- 7"]
  note D = normalization_saturates [of 0 0 good_bot 7]
  have "input (getAction_body pi (- 25) (entry good_bot)) ! 0 = 1"
    using A big by (elim conjE) (erule (1) mp)
  moreover have "input (getAction_body pi (- 25) (entry good_bot)) ! 1 = - 1"
    using A v1 by (elim conjE) (erule (1) mp)
  moreover have "input (getAction_body (- 4) 10 (entry good_bot)) ! 0 = - 1"
    using B small by (elim conjE) (erule (1) mp)
  moreover have "input (getAction_body (- 4) 10 (entry good_bot)) ! 1 = 1"
    using B v2 by (elim conjE) (erule (1) mp)
  moreover have "input (getAction_body 0 (- 2) (entry good_bot)) = [0, - 13421773 / 67108864]"
  proof -
    from C have "input (getAction_body 0 (- 2) (entry good_bot)) =
        [constrain (float32 (ddiv 0 (ddiv M_PI 3))) (- 1) 1,
         constrain (float32 (ddiv (- 2) 10)) (- 1) 1]"
      by (rule conjunct1)
    also have "constrain (float32 (ddiv 0 (ddiv M_PI 3))) (- 1) 1 = 0"
      by (simp add: ddiv_def constants_exact float32_small constrain_def)
    also have "constrain (float32 (ddiv (- 2) 10)) (- 1) 1 = - 13421773 / 67108864"
      by (simp add: ddiv_def constrain_def float_eval)
    finally show ?thesis .
  qed
  moreover have "constrain 1 (- 1) 1 = 1"
    using A by (elim conjE) simp
  moreover have "constrain (- 1) (- 1) 1 = - 1"
    using B by (elim conjE) simp
  moreover have "constrain (- 7) (- 1) 1 = - 1"
    using C by (elim conjE) simp
  moreover have "constrain 7 (- 1) 1 = 1"
    using D by (elim conjE) simp
  ultimately show ?thesis by (intro conjI)
qed

text \<open>
  C4. For an action index 0, 1 or 2, \<^verbatim>\<open>getMotorTorque\<close> returns the entry of the table
  \<open>{-1.0, 0.0, 1.0}\<close> at that index, so its result is one of \<open>-1\<close>, \<open>0\<close> and \<open>1\<close> and nothing
  else. For the index 1 (brake) the torque is \<open>0\<close>, whatever the tensors of the object are.
\<close>

theorem getMotorTorque_table:
  "(action \<in> {0, 1, 2} \<longrightarrow> getMotorTorque P action = [- 1, 0, 1] ! nat action)
   \<and> (action \<in> {0, 1, 2} \<longrightarrow> getMotorTorque P action \<in> {- 1, 0, 1})
   \<and> getMotorTorque P 1 = 0"
  by (auto simp: getMotorTorque_def actions_def)

theorem getMotorTorque_table_witness:
  "getMotorTorque good_bot 0 = - 1 \<and> getMotorTorque great_bot 1 = 0
   \<and> getMotorTorque okayish_bot 2 = 1"
  using getMotorTorque_table [of 0 good_bot] getMotorTorque_table [of 1 great_bot]
    getMotorTorque_table [of 2 okayish_bot]
  by simp

text \<open>
  C5. \<^verbatim>\<open>getAction\<close> is a total function: its loops run over fixed ranges, every index it
  reads lies inside the array it reads from, and nothing in it can fail. For every object
  and every pair of inputs the result is 0, 1 or 2.
\<close>

theorem getAction_in_range:
  "getAction P angle angularVelocity \<in> {0, 1, 2}
   \<and> (\<forall>i<INPUT_SIZE. \<forall>h<HIDDEN_SIZE. i * HIDDEN_SIZE + h < INPUT_SIZE * HIDDEN_SIZE)
   \<and> (\<forall>h<HIDDEN_SIZE. \<forall>j<OUTPUT_SIZE. h * OUTPUT_SIZE + j < HIDDEN_SIZE * OUTPUT_SIZE)"
proof -
  have "getAction P angle angularVelocity \<in> {0, 1, 2}"
    using track_fold_index [of "score P angle angularVelocity" OUTPUT_SIZE sentinel]
    by (auto simp: getAction_eq OUTPUT_SIZE_def)
  moreover have "\<forall>i<INPUT_SIZE. \<forall>h<HIDDEN_SIZE. i * HIDDEN_SIZE + h < INPUT_SIZE * HIDDEN_SIZE"
    by (auto simp: INPUT_SIZE_def HIDDEN_SIZE_def)
  moreover have "\<forall>h<HIDDEN_SIZE. \<forall>j<OUTPUT_SIZE. h * OUTPUT_SIZE + j < HIDDEN_SIZE * OUTPUT_SIZE"
    by (auto simp: OUTPUT_SIZE_def HIDDEN_SIZE_def)
  ultimately show ?thesis by blast
qed

theorem getAction_in_range_witness:
  "getAction good_bot 0 0 \<in> {0, 1, 2}
   \<and> 1 * HIDDEN_SIZE + 63 < INPUT_SIZE * HIDDEN_SIZE
   \<and> 63 * OUTPUT_SIZE + 2 < HIDDEN_SIZE * OUTPUT_SIZE"
proof -
  have i: "1 < INPUT_SIZE" and h: "63 < HIDDEN_SIZE" and j: "2 < OUTPUT_SIZE"
    by (simp_all add: INPUT_SIZE_def HIDDEN_SIZE_def OUTPUT_SIZE_def)
  from getAction_in_range [of good_bot 0 0] i h j show ?thesis by blast
qed

text \<open>
  C7. With the four tensors taken as an argument, the functions \<^verbatim>\<open>getAction\<close> and
  \<^verbatim>\<open>getMotorTorque\<close> of the three files are the same functions, as are their helpers
  \<^verbatim>\<open>relu\<close> and \<^verbatim>\<open>constrain\<close>; the three shipped parameter sets differ from each other.
\<close>

theorem three_files_one_engine:
  "great_getAction = getAction \<and> okayish_getAction = getAction
   \<and> great_getMotorTorque = getMotorTorque \<and> okayish_getMotorTorque = getMotorTorque
   \<and> great_relu = relu \<and> okayish_relu = relu
   \<and> great_constrain = constrain \<and> okayish_constrain = constrain
   \<and> good_bot \<noteq> great_bot \<and> good_bot \<noteq> okayish_bot \<and> great_bot \<noteq> okayish_bot"
  by (simp only: great_getAction okayish_getAction great_getMotorTorque okayish_getMotorTorque
      great_relu okayish_relu great_constrain okayish_constrain tensors_differ simp_thms)

text \<open>
  C8. A call of \<^verbatim>\<open>getAction\<close> reads the locals only after it has written them. So for two
  frames on entry that hold the same object, whatever their locals hold, the two calls
  with the same pair of inputs end in the same frame and return the same index, the one
  that \<open>getAction\<close> gives for the object and the inputs; and the object at the end of the
  call, the four tensors, is the object at its start.
\<close>

theorem getAction_deterministic:
  assumes "well_sized s" and "well_sized s'" and "self s = self s'"
  shows "getAction_body a v s = getAction_body a v s'
     \<and> bestAction (getAction_body a v s) = bestAction (getAction_body a v s')
     \<and> bestAction (getAction_body a v s) = getAction (self s) a v
     \<and> self (getAction_body a v s) = self s"
proof -
  have final: "getAction_body a v t = getAction_body a v (entry (self t))" if "well_sized t" for t
    by (rule frame.equality;
        simp only: getAction_body_eq [OF that] getAction_body_eq [OF well_sized_entry];
        simp add: entry_def)
  have "self (getAction_body a v s) = self s"
    by (simp add: getAction_body_eq [OF assms(1)])
  moreover have "getAction_body a v s = getAction_body a v s'"
    using final [OF assms(1)] final [OF assms(2)] assms(3) by simp
  moreover have "bestAction (getAction_body a v s) = getAction (self s) a v"
    using final [OF assms(1)] by (simp add: getAction_def)
  ultimately show ?thesis by simp
qed

theorem getAction_deterministic_witness:
  "getAction_body 0 0 \<lparr>self = good_bot, input = [3, 4], hidden = replicate 64 7,
       output = [1, 2, 3], maxValue = 99, bestAction = 2\<rparr>
     = getAction_body 0 0 (entry good_bot)
   \<and> bestAction (getAction_body 0 0 \<lparr>self = good_bot, input = [3, 4], hidden = replicate 64 7,
       output = [1, 2, 3], maxValue = 99, bestAction = 2\<rparr>) = getAction good_bot 0 0
   \<and> self (getAction_body 0 0 \<lparr>self = good_bot, input = [3, 4], hidden = replicate 64 7,
       output = [1, 2, 3], maxValue = 99, bestAction = 2\<rparr>) = good_bot"
proof -
  let ?s = "\<lparr>self = good_bot, input = [3, 4], hidden = replicate 64 7,
       output = [1, 2, 3], maxValue = 99, bestAction = 2\<rparr>"
  have a: "well_sized ?s"
    by (simp add: well_sized_def INPUT_SIZE_def HIDDEN_SIZE_def OUTPUT_SIZE_def)
  have b: "well_sized (entry good_bot)"
    by (simp add: well_sized_def entry_def)
  have c: "self ?s = self (entry good_bot)"
    by (simp add: entry_def)
  have d: "self ?s = good_bot"
    by simp
  note T = getAction_deterministic [OF a b c, of 0 0]
  from T have A: "getAction_body 0 0 ?s = getAction_body 0 0 (entry good_bot)"
    by (rule conjunct1)
  from T have "bestAction (getAction_body 0 0 ?s) = getAction (self ?s) 0 0"
    by blast
  then have B: "bestAction (getAction_body 0 0 ?s) = getAction good_bot 0 0"
    by (simp only: d)
  from T have "self (getAction_body 0 0 ?s) = self ?s"
    by blast
  then have C: "self (getAction_body 0 0 ?s) = good_bot"
    by (simp only: d)
  from A B C show ?thesis
    by (intro conjI)
qed

text \<open>
  C9. Each shipped parameter set has tensors of the declared sizes with all entries of
  magnitude at most 10. For such a set and every pair of inputs, each of the three scores
  has magnitude at most \<open>10 + 64 * 30 * 10 = 19210\<close> and so lies above the sentinel
  \<open>-1e10\<close>. The running maximum at the \<^verbatim>\<open>return\<close> is therefore not the sentinel but the
  score at the returned index, and no score is greater than it.
\<close>

theorem shipped_scores_above_sentinel:
  assumes "shipped P"
  shows "params_within P \<and> sentinel = - 10000000000
     \<and> (\<forall>j<3. \<bar>output (getAction_body a v (entry P)) ! j\<bar> \<le> 19210
              \<and> sentinel < output (getAction_body a v (entry P)) ! j)
     \<and> sentinel < maxValue (getAction_body a v (entry P))
     \<and> maxValue (getAction_body a v (entry P)) =
          output (getAction_body a v (entry P)) ! nat (getAction P a v)
     \<and> (\<forall>j<3. output (getAction_body a v (entry P)) ! j
              \<le> output (getAction_body a v (entry P)) ! nat (getAction P a v))"
proof -
  let ?out = "output (getAction_body a v (entry P))"
  let ?f = "score P a v"
  note within = shipped_within [OF assms]
  have three: "OUTPUT_SIZE = 3" by (simp add: OUTPUT_SIZE_def)
  have at: "?out ! j = ?f j" if "j < 3" for j
    using that by (simp add: output_entry three)
  have bounds: "\<forall>j<3. \<bar>?out ! j\<bar> \<le> 19210 \<and> sentinel < ?out ! j"
    using score_bound [OF within, of _ a v] shipped_above_sentinel [OF assms, of _ a v]
    by (simp add: at three)
  have "0 < OUTPUT_SIZE \<and> sentinel < ?f 0"
    using shipped_above_sentinel [OF assms, of 0 a v] by (simp add: three)
  then have "\<exists>j<OUTPUT_SIZE. sentinel < ?f j" ..
  from track_fold_first_maximum [OF this]
  have first: "first_maximum ?out (getAction P a v)"
    and mx: "maxValue (getAction_body a v (entry P)) = ?f (nat (getAction P a v))"
    by (simp_all add: output_entry_list getAction_eq maxValue_entry)
  from first have r: "nat (getAction P a v) < 3"
    and top: "\<forall>j<3. ?out ! j \<le> ?out ! nat (getAction P a v)"
    unfolding first_maximum_def output_length by blast+
  from mx r have mx': "maxValue (getAction_body a v (entry P)) = ?out ! nat (getAction P a v)"
    by (simp add: at)
  with bounds r have "sentinel < maxValue (getAction_body a v (entry P))"
    by simp
  with within bounds mx' top show ?thesis
    by (simp add: sentinel_def)
qed

theorem shipped_scores_above_sentinel_witness:
  "- 10000000000 < output (getAction_body 0 0 (entry good_bot)) ! 0
   \<and> \<bar>output (getAction_body 0 0 (entry good_bot)) ! 0\<bar> \<le> 19210
   \<and> - 10000000000 < output (getAction_body 3 (- 40) (entry great_bot)) ! 1
   \<and> \<bar>output (getAction_body 3 (- 40) (entry great_bot)) ! 1\<bar> \<le> 19210
   \<and> - 10000000000 < output (getAction_body (- 1) 7 (entry okayish_bot)) ! 2
   \<and> \<bar>output (getAction_body (- 1) 7 (entry okayish_bot)) ! 2\<bar> \<le> 19210
   \<and> - 10000000000 < maxValue (getAction_body 0 0 (entry good_bot))
   \<and> length (weightsHiddenOutput okayish_bot) = 192"
proof -
  have s: "shipped good_bot" "shipped great_bot" "shipped okayish_bot"
    by (simp_all add: shipped_def)
  note G = shipped_scores_above_sentinel [OF s(1), of 0 0]
  note H = shipped_scores_above_sentinel [OF s(2), of 3 "- 40"]
  note K = shipped_scores_above_sentinel [OF s(3), of "- 1" 7]
  from G have "- 10000000000 < output (getAction_body 0 0 (entry good_bot)) ! 0"
    "\<bar>output (getAction_body 0 0 (entry good_bot)) ! 0\<bar> \<le> 19210"
    "- 10000000000 < maxValue (getAction_body 0 0 (entry good_bot))"
    by simp_all
  moreover from H have "- 10000000000 < output (getAction_body 3 (- 40) (entry great_bot)) ! 1"
    "\<bar>output (getAction_body 3 (- 40) (entry great_bot)) ! 1\<bar> \<le> 19210"
    by simp_all
  moreover from K have "- 10000000000 < output (getAction_body (- 1) 7 (entry okayish_bot)) ! 2"
    "\<bar>output (getAction_body (- 1) 7 (entry okayish_bot)) ! 2\<bar> \<le> 19210"
    "length (weightsHiddenOutput okayish_bot) = 192"
    by (simp_all add: params_within_def HIDDEN_SIZE_def OUTPUT_SIZE_def)
  ultimately show ?thesis by simp
qed

text \<open>
  C10. \<^verbatim>\<open>relu\<close> is never negative: it returns its argument when that is positive and zero
  otherwise. So, at the end of every call of \<^verbatim>\<open>getAction\<close>, each of the 64 cells of
  \<^verbatim>\<open>hidden\<close>, which the output layer has read, holds a value that is at least zero.
\<close>

theorem relu_hidden_nonneg:
  "0 \<le> relu x \<and> (0 < x \<longrightarrow> relu x = x) \<and> (x \<le> 0 \<longrightarrow> relu x = 0)
   \<and> length (hidden (getAction_body a v (entry P))) = 64
   \<and> (\<forall>h<64. 0 \<le> hidden (getAction_body a v (entry P)) ! h)"
  by (simp add: relu_def getAction_body_eq [OF well_sized_entry] hidden_values_def
      hidden_value_def HIDDEN_SIZE_def)

theorem relu_hidden_nonneg_witness:
  "relu 3 = 3 \<and> relu (- 2) = 0 \<and> relu 0 = 0
   \<and> 0 \<le> hidden (getAction_body 1 (- 2) (entry good_bot)) ! 63"
  using relu_hidden_nonneg [of 3 1 "- 2" good_bot] relu_hidden_nonneg [of "- 2" 1 "- 2" good_bot]
    relu_hidden_nonneg [of 0 1 "- 2" good_bot]
  by simp

end
